theory Spec2Isabelle
  imports Main
begin

section \<open>Data model\<close>

text \<open>
  The validation pipeline of the language server exists twice in the repository: as the
  top-level function \<open>validateTextDocument\<close> of \<open>server/src/server.ts\<close>, working on the
  module's global registries, and as the method \<open>validate\<close> of the class
  \<open>ScannerServer\<close> (\<open>scannerServer.ts\<close>). Both are embedded here, each with the state it
  reads and writes passed explicitly, and every call that can throw with the error as
  a result.
\<close>

text \<open>
  Modelled from the spec: the enum \<open>ErrorLevel\<close> is declared in the analysis engine's
  package (\<open>flawed-code-scanner\<close>), which is not part of the sources; the spec lists its
  members as Error, Warning, Information, Hint. \<open>ErrorLevel_name\<close> is the reverse mapping
  \<open>ErrorLevel[level]\<close> of a TypeScript numeric enum: the member's name.
\<close>

datatype ErrorLevel = Error | Warning | Information | Hint

fun ErrorLevel_name :: "ErrorLevel \<Rightarrow> string" where
  "ErrorLevel_name Error = ''Error''"
| "ErrorLevel_name Warning = ''Warning''"
| "ErrorLevel_name Information = ''Information''"
| "ErrorLevel_name Hint = ''Hint''"

text \<open>
  A finding of the engine, with the fields the server reads: \<open>error.range[0]\<close> and
  \<open>error.range[1]\<close> (offsets), \<open>error.errorLevel\<close>, \<open>error.pluginTips\<close> and the optional
  \<open>error.extraMsg\<close> (\<open>None\<close> is \<open>undefined\<close>).
\<close>

record ScanError =
  err_range :: "nat \<times> nat"
  errorLevel :: ErrorLevel
  pluginTips :: string
  extraMsg :: "string option"

text \<open>
  The collector's \<open>getCodeErrors()\<close> is iterated with \<open>forEach((type, error) => ...)\<close>: a
  JavaScript Map whose keys are the error objects and whose values are their types,
  visited in insertion order. Keys are objects, so two entries may carry equal contents:
  the collector is the list of its entries. \<open>new ErrorCollector()\<close> is empty, and
  \<open>clearAll\<close> empties a collector.
\<close>

type_synonym ErrorCollector = "(ScanError \<times> string) list"

definition new_ErrorCollector :: ErrorCollector where
  "new_ErrorCollector = []"

definition clearAll :: "ErrorCollector \<Rightarrow> ErrorCollector" where
  "clearAll c = []"

definition getCodeErrors :: "ErrorCollector \<Rightarrow> (ScanError \<times> string) list" where
  "getCodeErrors c = c"

record ScanPluginsConf =
  plugin :: string
  options :: "(string \<times> int) list option"

record ISettings =
  maxNumberOfProblems :: int
  scanPluginsConf :: "ScanPluginsConf list option"

record TextDocument =
  uri :: string
  languageId :: string
  version :: int
  getText :: string

record Position =
  line :: nat
  character :: nat

record Range =
  range_start :: Position
  range_end :: Position

record Location =
  loc_uri :: string
  loc_range :: Range

record DiagnosticRelatedInformation =
  location :: Location
  ri_message :: string

text \<open>\<open>relatedInformation = None\<close> is a diagnostic object without that property.\<close>

record Diagnostic =
  severity :: ErrorLevel
  drange :: Range
  message :: string
  source :: string
  relatedInformation :: "DiagnosticRelatedInformation list option"

text \<open>The argument of \<open>scanner.setConfig\<close>.\<close>

record ScannerConfig =
  cfg_scanPluginsConf :: "ScanPluginsConf list"
  cfg_code :: string
  cfg_filePath :: string
  cfg_babelParsePlugins :: "string list"

text \<open>
  The payload of \<open>workspace/didChangeConfiguration\<close>: \<open>change.settings\<close> is of type
  \<open>any\<close>; \<open>None\<close> is \<open>null\<close> or \<open>undefined\<close>, and so is an absent (or falsy)
  \<open>languageServerExample\<close> section of a settings object.
\<close>

record ClientSettings =
  languageServerExample :: "ISettings option"

record DidChangeConfigurationParams =
  settings :: "ClientSettings option"

text \<open>What the server sends over its connection, in the order it sends it.\<close>

datatype Logged =
    Text string
  | ParsedPath string
  | Number int
  | Json DidChangeConfigurationParams

datatype Message =
    ConsoleLog Logged
  | ConsoleError string
  | GetConfiguration string string
  | SendDiagnostics string "Diagnostic list"
  | SendRequest string string
  | SendNotification string string

datatype RunOutcome = Completed | Failed

text \<open>
  What the server's own code can throw: a TypeError on reading a property of \<open>null\<close> or
  \<open>undefined\<close>, the URIError of Node's \<open>url.parse\<close>, and the error a rejected
  configuration request is awaited with.
\<close>

datatype JsError = TypeError | URIError | ResponseError

text \<open>
  The result of \<open>url.parse(uri)\<close>: the call throws, or returns an object whose
  \<open>pathname\<close> is a string or \<open>null\<close> (\<open>None\<close>).
\<close>

datatype ParsedUrl = UrlThrows | Pathname "string option"

text \<open>
  The promise of a \<open>workspace/configuration\<close> request, by what awaiting it gives: the
  value it resolves to, of type \<open>any\<close> (\<open>None\<close> is \<open>null\<close>, the answer for a section
  the client does not have; any other value without a \<open>scanPluginsConf\<close> property reads
  as a settings object without that sequence), or a rejection.
\<close>

datatype ConfigAnswer = Resolved "ISettings option" | Rejected

text \<open>
  The collaborators outside the repository, as parameters of the model:
  \<^item> \<open>positionAt\<close>: the text document's offset-to-position conversion;
  \<^item> \<open>url_parse\<close>: Node's \<open>url.parse\<close>;
  \<^item> \<open>run\<close>: \<open>scanner.run()\<close> under the configuration last set, on the collector that
    \<open>Scanner.genScanPluginsConf\<close> attached to the plugins: whether the call returned or
    threw, and the collector's entries afterwards;
  \<^item> \<open>getConfiguration\<close>: the promise \<open>connection.workspace.getConfiguration\<close> returns
    for a resource.
\<close>

record World =
  positionAt :: "TextDocument \<Rightarrow> nat \<Rightarrow> Position"
  url_parse :: "string \<Rightarrow> ParsedUrl"
  run :: "ScannerConfig \<Rightarrow> ErrorCollector \<Rightarrow> RunOutcome \<times> ErrorCollector"
  getConfiguration :: "string \<Rightarrow> ConfigAnswer"

section \<open>Shared declarations of the two modules\<close>

record DefaultScannerConfig =
  scanPlugins :: "ScanPluginsConf list"

definition defaultScannerConfig :: DefaultScannerConfig where
  "defaultScannerConfig = \<lparr>scanPlugins =
     [\<lparr>plugin = ''needTryCatch'', options = Some [(''level'', 2)]\<rparr>,
      \<lparr>plugin = ''needHandlerInCatch'', options = None\<rparr>,
      \<lparr>plugin = ''dangerousAndOperator'', options = None\<rparr>,
      \<lparr>plugin = ''dangerousInitState'', options = None\<rparr>,
      \<lparr>plugin = ''dangerousDefaultValue'', options = None\<rparr>]\<rparr>"

definition allLanguageIds :: "string list" where
  "allLanguageIds = [''javascript'', ''typescript'', ''javascriptreact'', ''typescriptreact'']"

definition getPluginByLanguageId :: "string \<Rightarrow> string list" where
  "getPluginByLanguageId lid =
     (if lid = ''javascript'' then []
      else if lid = ''typescript'' then [''typescript'']
      else if lid = ''javascriptreact'' then [''jsx'']
      else if lid = ''typescriptreact'' then [''jsx'', ''typescript'']
      else [])"

text \<open>
  \<open>getCollectorByUrl\<close> returns the registry's collector for the URI, registering a new
  one first if there is none. A collector is an object shared by reference: the model
  returns its entries and the registry, and later writes to the collector are writes to
  the registry's entry for the URI.
\<close>

definition getCollectorByUrl ::
  "(string \<rightharpoonup> ErrorCollector) \<Rightarrow> string \<Rightarrow> ErrorCollector \<times> (string \<rightharpoonup> ErrorCollector)" where
  "getCollectorByUrl cm u =
     (case cm u of
        Some c \<Rightarrow> (c, cm)
      | None \<Rightarrow> (new_ErrorCollector, cm(u \<mapsto> new_ErrorCollector)))"

text \<open>
  \<open>settings.scanPluginsConf ?? defaultScannerConfig.scanPlugins\<close>: the operator \<open>??\<close>
  takes its right operand only when the left one is \<open>null\<close> or \<open>undefined\<close>.
\<close>

definition nullish_scanPluginsConf :: "ISettings \<Rightarrow> ScanPluginsConf list" where
  "nullish_scanPluginsConf st =
     (case scanPluginsConf st of
        Some conf \<Rightarrow> conf
      | None \<Rightarrow> scanPlugins defaultScannerConfig)"

text \<open>
  Modelled from the spec: \<open>Scanner.genScanPluginsConf(conf, collector)\<close> belongs to the
  engine's package; by the spec it attaches the shared collector to every plugin of the
  configuration. The plugins are kept as they are, and the collector reaches the engine
  as the second argument of \<open>run\<close>.
\<close>

definition genScanPluginsConf :: "ScanPluginsConf list \<Rightarrow> ScanPluginsConf list" where
  "genScanPluginsConf conf = conf"

text \<open>JavaScript's truthiness of an optional string: \<open>undefined\<close> and \<open>""\<close> are falsy.\<close>

definition truthy :: "string option \<Rightarrow> bool" where
  "truthy v = (case v of None \<Rightarrow> False | Some str \<Rightarrow> str \<noteq> [])"

text \<open>
  The callback of \<open>errors.forEach\<close>, the same in both modules but for the flag it tests:
  \<open>hasDiagnosticRelatedInformationCapability\<close> in \<open>server.ts\<close>,
  \<open>this._allowRelatedInformation\<close> in \<open>ScannerServer\<close>. It is called with the flag's
  value.
\<close>

definition toDiagnostic :: "World \<Rightarrow> bool \<Rightarrow> TextDocument \<Rightarrow> ScanError \<Rightarrow> Diagnostic" where
  "toDiagnostic w allow textDocument error =
     (let diagnostic = \<lparr>severity = errorLevel error,
            drange = \<lparr>range_start = positionAt w textDocument (fst (err_range error)),
                      range_end = positionAt w textDocument (snd (err_range error))\<rparr>,
            message = ErrorLevel_name (errorLevel error) @ '': '' @ pluginTips error,
            source = ''code-scanner'',
            relatedInformation = None\<rparr>
      in if allow \<and> truthy (extraMsg error)
         then diagnostic\<lparr>relatedInformation :=
                Some [\<lparr>location = \<lparr>loc_uri = uri textDocument, loc_range = drange diagnostic\<rparr>,
                       ri_message = the (extraMsg error)\<rparr>]\<rparr>
         else diagnostic)"

definition toDiagnostics ::
  "World \<Rightarrow> bool \<Rightarrow> TextDocument \<Rightarrow> (ScanError \<times> string) list \<Rightarrow> Diagnostic list" where
  "toDiagnostics w allow textDocument errors =
     map (\<lambda>(error, type). toDiagnostic w allow textDocument error) errors"

section \<open>server.ts\<close>

text \<open>
  The module's state: the three capability flags, \<open>globalSettings\<close>, the settings cache
  \<open>documentSettings\<close> (the promises it holds), \<open>collectorMap\<close>, the configuration last
  given to the one \<open>scanner\<close>, the open documents of the document manager in
  \<open>documents.all()\<close> order, and what was sent over the connection.
\<close>

record Server =
  hasConfigurationCapability :: bool
  hasWorkspaceFolderCapability :: bool
  hasDiagnosticRelatedInformationCapability :: bool
  globalSettings :: ISettings
  documentSettings :: "string \<rightharpoonup> ConfigAnswer"
  collectorMap :: "string \<rightharpoonup> ErrorCollector"
  scanner :: "ScannerConfig option"
  documents :: "TextDocument list"
  connection :: "Message list"

definition defaultSettings :: ISettings where
  "defaultSettings = \<lparr>maxNumberOfProblems = 1000,
     scanPluginsConf = Some (scanPlugins defaultScannerConfig)\<rparr>"

text \<open>
  \<open>getDocumentSettings\<close> returns a promise: \<open>Promise.resolve(globalSettings)\<close> without
  the configuration capability, else the cached promise of the resource, requested from
  the client and cached first if there is none.
\<close>

definition getDocumentSettings :: "World \<Rightarrow> Server \<Rightarrow> string \<Rightarrow> ConfigAnswer \<times> Server" where
  "getDocumentSettings w s resource =
     (if \<not> hasConfigurationCapability s then (Resolved (Some (globalSettings s)), s)
      else case documentSettings s resource of
             Some result \<Rightarrow> (result, s)
           | None \<Rightarrow>
               (let result = getConfiguration w resource
                in (result,
                    s\<lparr>documentSettings := (documentSettings s)(resource \<mapsto> result),
                      connection := connection s @
                        [GetConfiguration resource ''languageServerExample'']\<rparr>)))"

text \<open>
  \<open>validateTextDocument\<close> is an \<open>async\<close> function with one \<open>await\<close>. A call runs up to
  the \<open>await\<close> at once (\<open>validateTextDocument_start\<close>): the language check, which ends
  the run for an unsupported document (\<open>None\<close>), and the call of \<open>getDocumentSettings\<close>,
  whose promise the run is then suspended on.
\<close>

definition validateTextDocument_start ::
  "World \<Rightarrow> Server \<Rightarrow> TextDocument \<Rightarrow> Server \<times> ConfigAnswer option" where
  "validateTextDocument_start w s textDocument =
     (if languageId textDocument \<notin> set allLanguageIds then (s, None)
      else let (promise, s1) = getDocumentSettings w s (uri textDocument)
           in (s1, Some promise))"

text \<open>
  The rest of the run, from the \<open>await\<close> on, in the state it is resumed in. Only
  \<open>scanner.run()\<close> stands in a \<open>try\<close>; the run ends with an error (\<open>Inl\<close>, with the state
  it leaves behind)
  \<^item> at the \<open>await\<close>, when the promise is rejected;
  \<^item> at \<open>settings.scanPluginsConf\<close>, when the settings are \<open>null\<close>: after \<open>clearAll\<close>;
  \<^item> at \<open>url.parse(textDocument.uri)\<close>, when that call throws: after the first log line.
\<close>

definition validateTextDocument_resume ::
  "World \<Rightarrow> Server \<Rightarrow> TextDocument \<Rightarrow> ConfigAnswer \<Rightarrow> (JsError \<times> Server) + Server" where
  "validateTextDocument_resume w s textDocument promise =
     (case promise of
        Rejected \<Rightarrow> Inl (ResponseError, s)
      | Resolved answer \<Rightarrow>
          (let (collector, cm) = getCollectorByUrl (collectorMap s) (uri textDocument);
               cm1 = cm(uri textDocument \<mapsto> clearAll collector)
           in case answer of
                None \<Rightarrow> Inl (TypeError, s\<lparr>collectorMap := cm1\<rparr>)
              | Some st \<Rightarrow>
                  (let scannerPlugins = genScanPluginsConf (nullish_scanPluginsConf st);
                       log0 = connection s @ [ConsoleLog (Text (uri textDocument))]
                   in case url_parse w (uri textDocument) of
                        UrlThrows \<Rightarrow>
                          Inl (URIError, s\<lparr>collectorMap := cm1, connection := log0\<rparr>)
                      | Pathname pathname \<Rightarrow>
                          (let log1 = log0 @
                                 [ConsoleLog (ParsedPath
                                    (case pathname of None \<Rightarrow> [] | Some p \<Rightarrow> p)),
                                  ConsoleLog (Number (version textDocument))];
                               config = \<lparr>cfg_scanPluginsConf = scannerPlugins,
                                 cfg_code = getText textDocument,
                                 cfg_filePath = uri textDocument,
                                 cfg_babelParsePlugins =
                                   getPluginByLanguageId (languageId textDocument)\<rparr>;
                               (outcome, collected) =
                                 run w config (the (cm1 (uri textDocument)));
                               cm2 = cm1(uri textDocument \<mapsto> collected);
                               log2 = (case outcome of
                                         Completed \<Rightarrow> log1
                                       | Failed \<Rightarrow>
                                           log1 @ [ConsoleError ''code parse error!'']);
                               errors = getCodeErrors (the (cm2 (uri textDocument)));
                               diagnostics =
                                 toDiagnostics w
                                   (hasDiagnosticRelatedInformationCapability s)
                                   textDocument errors
                           in Inr (s\<lparr>collectorMap := cm2,
                                     scanner := Some config,
                                     connection := log2 @
                                       [SendDiagnostics (uri textDocument) diagnostics,
                                        SendRequest ''request'' ''send request'',
                                        SendNotification ''notification''
                                          ''send notification'']\<rparr>)))))"

text \<open>
  One whole run, resumed with no other event between its two parts. The lemmas
  \<open>resume_Rejected\<close>, \<open>resume_null\<close>, \<open>resume_UrlThrows\<close> and \<open>resume_Pathname\<close> below
  give the second part in any state: what it does to the state it is resumed in does
  not depend on what happened since the run was suspended.
\<close>

definition validateTextDocument ::
  "World \<Rightarrow> Server \<Rightarrow> TextDocument \<Rightarrow> (JsError \<times> Server) + Server" where
  "validateTextDocument w s textDocument =
     (case validateTextDocument_start w s textDocument of
        (s1, None) \<Rightarrow> Inr s1
      | (s1, Some promise) \<Rightarrow> validateTextDocument_resume w s1 textDocument promise)"

text \<open>
  \<open>documents.all().forEach(validateTextDocument)\<close>: every call runs up to its \<open>await\<close>
  before the next one starts, and none gets further before the handler returns. The
  result is the state then and the suspended runs, each with the promise it awaits.
\<close>

fun forEach_validateTextDocument ::
  "World \<Rightarrow> Server \<Rightarrow> TextDocument list \<Rightarrow> Server \<times> (TextDocument \<times> ConfigAnswer) list" where
  "forEach_validateTextDocument w s [] = (s, [])"
| "forEach_validateTextDocument w s (d # ds) =
     (case validateTextDocument_start w s d of
        (s1, None) \<Rightarrow> forEach_validateTextDocument w s1 ds
      | (s1, Some promise) \<Rightarrow>
          (case forEach_validateTextDocument w s1 ds of
             (s2, suspended) \<Rightarrow> (s2, (d, promise) # suspended)))"

text \<open>
  The handler of \<open>workspace/didChangeConfiguration\<close>. Without the configuration
  capability it reads \<open>change.settings.languageServerExample\<close>, which throws a TypeError
  when \<open>change.settings\<close> is \<open>null\<close> or \<open>undefined\<close>: the handler ends there, after its
  log line. Otherwise it returns with the re-validations suspended; each is resumed
  later, by \<open>validateTextDocument_resume\<close> in the state of that moment.
\<close>

definition onDidChangeConfiguration ::
  "World \<Rightarrow> Server \<Rightarrow> DidChangeConfigurationParams \<Rightarrow>
     (JsError \<times> Server) + (Server \<times> (TextDocument \<times> ConfigAnswer) list)" where
  "onDidChangeConfiguration w s change =
     (let s1 = s\<lparr>connection := connection s @ [ConsoleLog (Json change)]\<rparr>;
          reset =
            (if hasConfigurationCapability s1
             then Inr (s1\<lparr>documentSettings := Map.empty\<rparr>)
             else case settings change of
                    None \<Rightarrow> Inl (TypeError, s1)
                  | Some obj \<Rightarrow>
                      Inr (s1\<lparr>globalSettings :=
                        (case languageServerExample obj of
                           Some g \<Rightarrow> g
                         | None \<Rightarrow> defaultSettings)\<rparr>))
      in case reset of
           Inl e \<Rightarrow> Inl e
         | Inr s2 \<Rightarrow>
             (let s3 = s2\<lparr>collectorMap := (\<lambda>u. map_option clearAll (collectorMap s2 u))\<rparr>
              in Inr (forEach_validateTextDocument w s3 (documents s3))))"

text \<open>The handler of \<open>documents.onDidClose\<close>.\<close>

definition onDidClose :: "Server \<Rightarrow> TextDocument \<Rightarrow> Server" where
  "onDidClose s document = s\<lparr>documentSettings := (documentSettings s)(uri document := None)\<rparr>"

text \<open>
  A \<open>textDocument/didClose\<close> notification: the document manager drops the document it
  holds for the URI, if any, and fires \<open>onDidClose\<close> with it.
\<close>

definition didClose :: "Server \<Rightarrow> string \<Rightarrow> Server" where
  "didClose s u =
     (case find (\<lambda>d. uri d = u) (documents s) of
        None \<Rightarrow> s
      | Some d \<Rightarrow> onDidClose (s\<lparr>documents := filter (\<lambda>d. uri d \<noteq> u) (documents s)\<rparr>) d)"

text \<open>The handler of \<open>documents.onDidChangeContent\<close>: it starts a run.\<close>

definition onDidChangeContent ::
  "World \<Rightarrow> Server \<Rightarrow> TextDocument \<Rightarrow> Server \<times> ConfigAnswer option" where
  "onDidChangeContent w s document = validateTextDocument_start w s document"

section \<open>scannerServer.ts\<close>

text \<open>
  An instance of \<open>ScannerServer\<close> with the module's own \<open>collectorMap\<close>. The field
  \<open>_connection\<close> is \<open>null\<close> until \<open>bindConnection\<close>; \<open>_allowRelatedInformation\<close> is
  initialised to \<open>true\<close>, and the constructor does not assign its parameter to it.
\<close>

record ScannerServer =
  ss_connection :: "Message list option"
  ss_scanner :: "ScannerConfig option"
  ss_allowRelatedInformation :: bool
  ss_collectorMap :: "string \<rightharpoonup> ErrorCollector"

definition new_ScannerServer ::
  "(string \<rightharpoonup> ErrorCollector) \<Rightarrow> bool option \<Rightarrow> ScannerServer" where
  "new_ScannerServer cm allowRelatedInformation =
     \<lparr>ss_connection = None, ss_scanner = None,
      ss_allowRelatedInformation = True, ss_collectorMap = cm\<rparr>"

definition bindConnection :: "ScannerServer \<Rightarrow> Message list \<Rightarrow> ScannerServer" where
  "bindConnection ss c = ss\<lparr>ss_connection := Some c\<rparr>"

text \<open>
  \<open>validate\<close> is not \<open>async\<close> and takes the settings as an argument. It first uses
  \<open>this._connection\<close> after it has cleared the collector: on an instance without a
  connection the TypeError leaves the cleared collector behind. As in \<open>server.ts\<close>,
  \<open>url.parse\<close> is called outside the \<open>try\<close>, after the first log line.
\<close>

definition validate ::
  "World \<Rightarrow> ScannerServer \<Rightarrow> TextDocument \<Rightarrow> ISettings \<Rightarrow> (JsError \<times> ScannerServer) + ScannerServer" where
  "validate w ss textDocument st =
     (if languageId textDocument \<notin> set allLanguageIds then Inr ss
      else
        let (collector, cm) = getCollectorByUrl (ss_collectorMap ss) (uri textDocument);
            cm1 = cm(uri textDocument \<mapsto> clearAll collector);
            scannerPlugins = genScanPluginsConf (nullish_scanPluginsConf st)
        in case ss_connection ss of
             None \<Rightarrow> Inl (TypeError, ss\<lparr>ss_collectorMap := cm1\<rparr>)
           | Some c \<Rightarrow>
               (let log0 = c @ [ConsoleLog (Text (uri textDocument))]
                in case url_parse w (uri textDocument) of
                     UrlThrows \<Rightarrow>
                       Inl (URIError, ss\<lparr>ss_collectorMap := cm1, ss_connection := Some log0\<rparr>)
                   | Pathname pathname \<Rightarrow>
                       (let log1 = log0 @
                              [ConsoleLog (ParsedPath
                                 (case pathname of None \<Rightarrow> [] | Some p \<Rightarrow> p)),
                               ConsoleLog (Number (version textDocument))];
                            config = \<lparr>cfg_scanPluginsConf = scannerPlugins,
                              cfg_code = getText textDocument,
                              cfg_filePath = uri textDocument,
                              cfg_babelParsePlugins =
                                getPluginByLanguageId (languageId textDocument)\<rparr>;
                            (outcome, collected) = run w config (the (cm1 (uri textDocument)));
                            cm2 = cm1(uri textDocument \<mapsto> collected);
                            log2 = (case outcome of
                                      Completed \<Rightarrow> log1
                                    | Failed \<Rightarrow> log1 @ [ConsoleError ''code parse error!'']);
                            errors = getCodeErrors (the (cm2 (uri textDocument)));
                            diagnostics =
                              toDiagnostics w (ss_allowRelatedInformation ss) textDocument errors
                        in Inr (ss\<lparr>ss_collectorMap := cm2,
                                   ss_scanner := Some config,
                                   ss_connection := Some (log2 @
                                     [SendDiagnostics (uri textDocument) diagnostics,
                                      SendRequest ''request'' ''send request'',
                                      SendNotification ''notification''
                                        ''send notification''])\<rparr>))))"

section \<open>Observations\<close>

text \<open>
  The \<open>publishDiagnostics\<close> notifications among the messages sent, oldest first: the URI
  and the diagnostics array of each.
\<close>

fun published :: "Message list \<Rightarrow> (string \<times> Diagnostic list) list" where
  "published [] = []"
| "published (SendDiagnostics u ds # ms) = (u, ds) # published ms"
| "published (m # ms) = published ms"

text \<open>How a call ended: the state it left behind, and the error it threw, if any.\<close>

definition state_of :: "(JsError \<times> 's) + 's \<Rightarrow> 's" where
  "state_of r = (case r of Inl (e, s) \<Rightarrow> s | Inr s \<Rightarrow> s)"

definition error_of :: "(JsError \<times> 's) + 's \<Rightarrow> JsError option" where
  "error_of r = (case r of Inl (e, s) \<Rightarrow> Some e | Inr s \<Rightarrow> None)"

text \<open>
  The URIs of the open documents that pass the language check of the pipeline, in
  \<open>documents.all()\<close> order.
\<close>

definition supported :: "TextDocument list \<Rightarrow> string list" where
  "supported ds = map uri (filter (\<lambda>d. languageId d \<in> set allLanguageIds) ds)"

definition supportedOpenUris :: "Server \<Rightarrow> string list" where
  "supportedOpenUris s = supported (documents s)"

text \<open>
  The configuration record a run hands to \<open>scanner.setConfig\<close> for a document, given the
  settings it resolved: the value of \<open>config\<close> in \<open>validateTextDocument_resume\<close> and
  \<open>validate\<close> (lemmas \<open>resume_Pathname\<close> and \<open>validate_bound\<close> below).
\<close>

definition configOf :: "ISettings \<Rightarrow> TextDocument \<Rightarrow> ScannerConfig" where
  "configOf st d = \<lparr>cfg_scanPluginsConf = nullish_scanPluginsConf st,
                    cfg_code = getText d,
                    cfg_filePath = uri d,
                    cfg_babelParsePlugins = getPluginByLanguageId (languageId d)\<rparr>"

section \<open>Concrete inputs\<close>

text \<open>
  A small world and a few states on which the theorems below are evaluated. In
  \<open>exampleWorld\<close>, \<open>url.parse\<close> throws on the URI \<open>http://%@h/a.ts\<close> (its userinfo does
  not decode) and otherwise finds the URI as the pathname; the engine throws on an empty
  source, reports one finding and then throws on the source \<open>f(\<close>, and otherwise reports
  one finding and returns, findings being added after whatever the collector holds; the
  client answers every configuration request with a settings object that has no
  \<open>scanPluginsConf\<close>. In \<open>nullWorld\<close> the client answers \<open>null\<close>.
\<close>

definition exampleError :: ScanError where
  "exampleError = \<lparr>err_range = (10, 20), errorLevel = Warning,
     pluginTips = ''need try catch'', extraMsg = Some ''wrap the call''\<rparr>"

definition exampleWorld :: World where
  "exampleWorld = \<lparr>
     positionAt = (\<lambda>d off. \<lparr>line = 0, character = off\<rparr>),
     url_parse = (\<lambda>u. if u = ''http://%@h/a.ts'' then UrlThrows else Pathname (Some u)),
     run = (\<lambda>cfg c. if cfg_code cfg = [] then (Failed, c)
                     else if cfg_code cfg = ''f('' then (Failed, c @ [(exampleError, ''needTryCatch'')])
                     else (Completed, c @ [(exampleError, ''needTryCatch'')])),
     getConfiguration =
       (\<lambda>u. Resolved (Some \<lparr>maxNumberOfProblems = 100, scanPluginsConf = None\<rparr>))\<rparr>"

definition nullWorld :: World where
  "nullWorld = exampleWorld\<lparr>getConfiguration := (\<lambda>u. Resolved None)\<rparr>"

definition tsDoc :: TextDocument where
  "tsDoc = \<lparr>uri = ''a.ts'', languageId = ''typescript'', version = 1, getText = ''f()''\<rparr>"

definition newDoc :: TextDocument where
  "newDoc = \<lparr>uri = ''n.ts'', languageId = ''typescript'', version = 1, getText = ''g()''\<rparr>"

definition emptyDoc :: TextDocument where
  "emptyDoc = \<lparr>uri = ''e.js'', languageId = ''javascript'', version = 1, getText = []\<rparr>"

definition brokenDoc :: TextDocument where
  "brokenDoc = \<lparr>uri = ''b.js'', languageId = ''javascript'', version = 1, getText = ''f(''\<rparr>"

definition badUriDoc :: TextDocument where
  "badUriDoc = \<lparr>uri = ''http://%@h/a.ts'', languageId = ''typescript'', version = 1,
     getText = ''f()''\<rparr>"

definition pyDoc :: TextDocument where
  "pyDoc = \<lparr>uri = ''p.py'', languageId = ''python'', version = 1, getText = ''f()''\<rparr>"

text \<open>
  A server whose client pushes its settings (\<open>pushServer\<close>) and one whose client
  answers configuration requests (\<open>pullServer\<close>, with the settings of \<open>tsDoc\<close> cached);
  both negotiated related information, hold \<open>tsDoc\<close> open and keep a collector with one
  stale entry for it.
\<close>

definition pushServer :: Server where
  "pushServer = \<lparr>hasConfigurationCapability = False,
     hasWorkspaceFolderCapability = False,
     hasDiagnosticRelatedInformationCapability = True,
     globalSettings = defaultSettings,
     documentSettings = Map.empty,
     collectorMap = [''a.ts'' \<mapsto> [(exampleError, ''stale'')]],
     scanner = None,
     documents = [tsDoc],
     connection = []\<rparr>"

definition pullServer :: Server where
  "pullServer = pushServer\<lparr>hasConfigurationCapability := True,
     documentSettings := [''a.ts'' \<mapsto> Resolved (Some defaultSettings)]\<rparr>"

text \<open>Settings whose plugin sequence is present and empty, and a server holding them.\<close>

definition emptyConfSettings :: ISettings where
  "emptyConfSettings = \<lparr>maxNumberOfProblems = 1000, scanPluginsConf = Some []\<rparr>"

definition emptyConfServer :: Server where
  "emptyConfServer = pushServer\<lparr>globalSettings := emptyConfSettings\<rparr>"

text \<open>A finding whose \<open>extraMsg\<close> is the empty string, and an engine that reports it.\<close>

definition emptyMsgError :: ScanError where
  "emptyMsgError = exampleError\<lparr>extraMsg := Some []\<rparr>"

definition emptyMsgWorld :: World where
  "emptyMsgWorld = exampleWorld\<lparr>run := (\<lambda>cfg c. (Completed, c @ [(emptyMsgError, ''needTryCatch'')]))\<rparr>"

text \<open>
  An instance of \<open>ScannerServer\<close> constructed with \<open>allowRelatedInformation = false\<close>, as
  the constructor leaves it (\<open>unboundScannerServer\<close>) and bound to a connection on which
  nothing was sent yet (\<open>boundScannerServer\<close>).
\<close>

definition unboundScannerServer :: ScannerServer where
  "unboundScannerServer = new_ScannerServer Map.empty (Some False)"

definition boundScannerServer :: ScannerServer where
  "boundScannerServer = bindConnection unboundScannerServer []"

section \<open>The effect of one validation run\<close>

lemma published_append: "published (xs @ ys) = published xs @ published ys"
  by (induction xs rule: published.induct) simp_all

lemma getDocumentSettings_fst:
  "fst (getDocumentSettings w s u) =
     (if \<not> hasConfigurationCapability s then Resolved (Some (globalSettings s))
      else case documentSettings s u of Some r \<Rightarrow> r | None \<Rightarrow> getConfiguration w u)"
  by (simp add: getDocumentSettings_def Let_def split: option.splits)

lemma getDocumentSettings_snd:
  "snd (getDocumentSettings w s u) =
     (if hasConfigurationCapability s \<and> documentSettings s u = None
      then s\<lparr>documentSettings := (documentSettings s)(u \<mapsto> getConfiguration w u),
             connection := connection s @ [GetConfiguration u ''languageServerExample'']\<rparr>
      else s)"
  by (simp add: getDocumentSettings_def Let_def split: option.splits)

text \<open>What the call leaves untouched, and that a second call finds the same promise.\<close>

lemma getDocumentSettings_keeps:
  "hasConfigurationCapability (snd (getDocumentSettings w s u)) = hasConfigurationCapability s"
  "hasDiagnosticRelatedInformationCapability (snd (getDocumentSettings w s u)) =
     hasDiagnosticRelatedInformationCapability s"
  "globalSettings (snd (getDocumentSettings w s u)) = globalSettings s"
  "collectorMap (snd (getDocumentSettings w s u)) = collectorMap s"
  "scanner (snd (getDocumentSettings w s u)) = scanner s"
  "documents (snd (getDocumentSettings w s u)) = documents s"
  "published (connection (snd (getDocumentSettings w s u))) = published (connection s)"
  by (simp_all add: getDocumentSettings_snd published_append)

lemma getDocumentSettings_again:
  assumes "hasConfigurationCapability s' = hasConfigurationCapability s"
    and "globalSettings s' = globalSettings s"
    and "documentSettings s' = documentSettings (snd (getDocumentSettings w s u))"
  shows "getDocumentSettings w s' u = (fst (getDocumentSettings w s u), s')"
  using assms
  by (auto simp: getDocumentSettings_def Let_def split: option.splits)

lemma resume_Rejected:
  "validateTextDocument_resume w s d Rejected = Inl (ResponseError, s)"
  by (simp add: validateTextDocument_resume_def)

lemma resume_null:
  "validateTextDocument_resume w s d (Resolved None) =
     Inl (TypeError, s\<lparr>collectorMap := (collectorMap s)(uri d \<mapsto> [])\<rparr>)"
  by (auto simp: validateTextDocument_resume_def Let_def getCollectorByUrl_def clearAll_def
      new_ErrorCollector_def split: option.splits)

lemma resume_UrlThrows:
  "url_parse w (uri d) = UrlThrows \<Longrightarrow>
     validateTextDocument_resume w s d (Resolved (Some st)) =
       Inl (URIError, s\<lparr>collectorMap := (collectorMap s)(uri d \<mapsto> []),
                        connection := connection s @ [ConsoleLog (Text (uri d))]\<rparr>)"
  by (auto simp: validateTextDocument_resume_def Let_def getCollectorByUrl_def clearAll_def
      new_ErrorCollector_def split: option.splits)

lemma resume_Pathname:
  "url_parse w (uri d) = Pathname pn \<Longrightarrow>
     validateTextDocument_resume w s d (Resolved (Some st)) =
       Inr (s\<lparr>collectorMap := (collectorMap s)(uri d \<mapsto> snd (run w (configOf st d) [])),
        scanner := Some (configOf st d),
        connection := connection s @
           [ConsoleLog (Text (uri d)),
            ConsoleLog (ParsedPath (case pn of None \<Rightarrow> [] | Some p \<Rightarrow> p)),
            ConsoleLog (Number (version d))] @
           (case fst (run w (configOf st d) []) of
              Completed \<Rightarrow> []
            | Failed \<Rightarrow> [ConsoleError ''code parse error!'']) @
           [SendDiagnostics (uri d)
              (toDiagnostics w (hasDiagnosticRelatedInformationCapability s) d
                 (snd (run w (configOf st d) []))),
            SendRequest ''request'' ''send request'',
            SendNotification ''notification'' ''send notification'']\<rparr>)"
  by (auto simp: validateTextDocument_resume_def Let_def genScanPluginsConf_def
      getCodeErrors_def getCollectorByUrl_def clearAll_def new_ErrorCollector_def configOf_def
      split: prod.splits option.splits RunOutcome.splits)

lemma validateTextDocument_unsupported:
  "languageId d \<notin> set allLanguageIds \<Longrightarrow> validateTextDocument w s d = Inr s"
  by (simp add: validateTextDocument_def validateTextDocument_start_def)

lemma validateTextDocument_supported:
  "languageId d \<in> set allLanguageIds \<Longrightarrow>
     validateTextDocument w s d =
       validateTextDocument_resume w (snd (getDocumentSettings w s (uri d))) d
         (fst (getDocumentSettings w s (uri d)))"
  by (simp add: validateTextDocument_def validateTextDocument_start_def split: prod.splits)

text \<open>The four ways a run of a supported document ends.\<close>

lemma validateTextDocument_cases:
  assumes "languageId d \<in> set allLanguageIds"
  obtains
    (rejected) "fst (getDocumentSettings w s (uri d)) = Rejected"
      "validateTextDocument w s d = Inl (ResponseError, snd (getDocumentSettings w s (uri d)))"
  | (null) "fst (getDocumentSettings w s (uri d)) = Resolved None"
      "validateTextDocument w s d =
         Inl (TypeError, (snd (getDocumentSettings w s (uri d)))
           \<lparr>collectorMap := (collectorMap s)(uri d \<mapsto> [])\<rparr>)"
  | (uri) st where "fst (getDocumentSettings w s (uri d)) = Resolved (Some st)"
      "url_parse w (uri d) = UrlThrows"
      "validateTextDocument w s d =
         Inl (URIError, (snd (getDocumentSettings w s (uri d)))
           \<lparr>collectorMap := (collectorMap s)(uri d \<mapsto> []),
            connection := connection (snd (getDocumentSettings w s (uri d))) @
              [ConsoleLog (Text (uri d))]\<rparr>)"
  | (ran) st pn where "fst (getDocumentSettings w s (uri d)) = Resolved (Some st)"
      "url_parse w (uri d) = Pathname pn"
      "validateTextDocument w s d =
         validateTextDocument_resume w (snd (getDocumentSettings w s (uri d))) d
           (Resolved (Some st))"
proof (cases "fst (getDocumentSettings w s (uri d))")
  case Rejected
  then show ?thesis
    using rejected by (simp add: validateTextDocument_supported [OF assms] resume_Rejected)
next
  case (Resolved a)
  show ?thesis
  proof (cases a)
    case None
    with Resolved show ?thesis
      using null
      by (simp add: validateTextDocument_supported [OF assms] resume_null
          getDocumentSettings_keeps)
  next
    case (Some st)
    show ?thesis
    proof (cases "url_parse w (uri d)")
      case UrlThrows
      with Resolved Some show ?thesis
        using uri [of st]
        by (simp add: validateTextDocument_supported [OF assms] resume_UrlThrows
            getDocumentSettings_keeps)
    next
      case (Pathname pn)
      with Resolved Some show ?thesis
        using ran [of st pn] by (simp add: validateTextDocument_supported [OF assms])
    qed
  qed
qed


text \<open>The same run by a \<open>ScannerServer\<close>.\<close>

lemma validate_unbound:
  "languageId d \<in> set allLanguageIds \<Longrightarrow> ss_connection ss = None \<Longrightarrow>
     validate w ss d st =
       Inl (TypeError, ss\<lparr>ss_collectorMap := (ss_collectorMap ss)(uri d \<mapsto> [])\<rparr>)"
  by (auto simp: validate_def Let_def getCollectorByUrl_def clearAll_def
      new_ErrorCollector_def split: option.splits)

lemma validate_UrlThrows:
  "languageId d \<in> set allLanguageIds \<Longrightarrow> ss_connection ss = Some c \<Longrightarrow>
   url_parse w (uri d) = UrlThrows \<Longrightarrow>
     validate w ss d st =
       Inl (URIError, ss\<lparr>ss_collectorMap := (ss_collectorMap ss)(uri d \<mapsto> []),
                          ss_connection := Some (c @ [ConsoleLog (Text (uri d))])\<rparr>)"
  by (auto simp: validate_def Let_def getCollectorByUrl_def clearAll_def
      new_ErrorCollector_def split: option.splits)

lemma validate_bound:
  "languageId d \<in> set allLanguageIds \<Longrightarrow> ss_connection ss = Some c \<Longrightarrow>
   url_parse w (uri d) = Pathname pn \<Longrightarrow>
     validate w ss d st =
       Inr (ss\<lparr>ss_collectorMap := (ss_collectorMap ss)(uri d \<mapsto> snd (run w (configOf st d) [])),
        ss_scanner := Some (configOf st d),
        ss_connection := Some (c @
           [ConsoleLog (Text (uri d)),
            ConsoleLog (ParsedPath (case pn of None \<Rightarrow> [] | Some p \<Rightarrow> p)),
            ConsoleLog (Number (version d))] @
           (case fst (run w (configOf st d) []) of
              Completed \<Rightarrow> []
            | Failed \<Rightarrow> [ConsoleError ''code parse error!'']) @
           [SendDiagnostics (uri d)
              (toDiagnostics w (ss_allowRelatedInformation ss) d
                 (snd (run w (configOf st d) []))),
            SendRequest ''request'' ''send request'',
            SendNotification ''notification'' ''send notification''])\<rparr>)"
  by (auto simp: validate_def Let_def genScanPluginsConf_def getCodeErrors_def
      getCollectorByUrl_def clearAll_def new_ErrorCollector_def configOf_def
      split: prod.splits option.splits RunOutcome.splits)

lemma bindConnection_bound: "ss_connection (bindConnection ss c) = Some c"
  by (simp add: bindConnection_def)

section \<open>Evaluation on the concrete inputs\<close>

lemma tsDoc_supported: "languageId tsDoc \<in> set allLanguageIds"
  by (simp add: tsDoc_def allLanguageIds_def)

lemma newDoc_supported: "languageId newDoc \<in> set allLanguageIds"
  by (simp add: newDoc_def allLanguageIds_def)

lemma emptyDoc_supported: "languageId emptyDoc \<in> set allLanguageIds"
  by (simp add: emptyDoc_def allLanguageIds_def)

lemma brokenDoc_supported: "languageId brokenDoc \<in> set allLanguageIds"
  by (simp add: brokenDoc_def allLanguageIds_def)

lemma badUriDoc_supported: "languageId badUriDoc \<in> set allLanguageIds"
  by (simp add: badUriDoc_def allLanguageIds_def)

lemma pyDoc_unsupported: "languageId pyDoc \<notin> set allLanguageIds"
  by (simp add: pyDoc_def allLanguageIds_def)

lemma url_parse_example:
  "url_parse exampleWorld (uri tsDoc) = Pathname (Some ''a.ts'')"
  "url_parse exampleWorld (uri newDoc) = Pathname (Some ''n.ts'')"
  "url_parse exampleWorld (uri emptyDoc) = Pathname (Some ''e.js'')"
  "url_parse exampleWorld (uri brokenDoc) = Pathname (Some ''b.js'')"
  "url_parse exampleWorld (uri badUriDoc) = UrlThrows"
  "url_parse emptyMsgWorld (uri tsDoc) = Pathname (Some ''a.ts'')"
  by (simp_all add: exampleWorld_def emptyMsgWorld_def tsDoc_def newDoc_def emptyDoc_def
      brokenDoc_def badUriDoc_def)

lemma run_example:
  "run exampleWorld (configOf st tsDoc) [] = (Completed, [(exampleError, ''needTryCatch'')])"
  "run exampleWorld (configOf st newDoc) [] = (Completed, [(exampleError, ''needTryCatch'')])"
  "run exampleWorld (configOf st brokenDoc) [] = (Failed, [(exampleError, ''needTryCatch'')])"
  "run exampleWorld (configOf st emptyDoc) [] = (Failed, [])"
  "run emptyMsgWorld (configOf st tsDoc) [] = (Completed, [(emptyMsgError, ''needTryCatch'')])"
  by (simp_all add: configOf_def exampleWorld_def emptyMsgWorld_def tsDoc_def newDoc_def
      brokenDoc_def emptyDoc_def)

text \<open>
  Without the configuration capability a run is resumed in the state it started in, on
  the global settings.
\<close>

lemma validateTextDocument_push:
  "languageId d \<in> set allLanguageIds \<Longrightarrow> \<not> hasConfigurationCapability s \<Longrightarrow>
     validateTextDocument w s d =
       validateTextDocument_resume w s d (Resolved (Some (globalSettings s)))"
  by (simp add: validateTextDocument_supported getDocumentSettings_fst getDocumentSettings_snd)

lemma pushServer_fields:
  "\<not> hasConfigurationCapability pushServer"
  "hasDiagnosticRelatedInformationCapability pushServer"
  "globalSettings pushServer = defaultSettings"
  "connection pushServer = []"
  "scanner pushServer = None"
  "collectorMap pushServer = [''a.ts'' \<mapsto> [(exampleError, ''stale'')]]"
  "documents pushServer = [tsDoc]"
  by (simp_all add: pushServer_def)

lemma validateTextDocument_push_example:
  assumes "languageId d \<in> set allLanguageIds"
    and "url_parse w (uri d) = Pathname pn"
  shows "validateTextDocument w pushServer d =
     Inr (pushServer\<lparr>collectorMap :=
            (collectorMap pushServer)(uri d \<mapsto> snd (run w (configOf defaultSettings d) [])),
        scanner := Some (configOf defaultSettings d),
        connection :=
           [ConsoleLog (Text (uri d)),
            ConsoleLog (ParsedPath (case pn of None \<Rightarrow> [] | Some p \<Rightarrow> p)),
            ConsoleLog (Number (version d))] @
           (case fst (run w (configOf defaultSettings d) []) of
              Completed \<Rightarrow> []
            | Failed \<Rightarrow> [ConsoleError ''code parse error!'']) @
           [SendDiagnostics (uri d)
              (toDiagnostics w True d (snd (run w (configOf defaultSettings d) []))),
            SendRequest ''request'' ''send request'',
            SendNotification ''notification'' ''send notification'']\<rparr>)"
  by (simp add: validateTextDocument_push [OF assms(1) pushServer_fields(1)]
      resume_Pathname [OF assms(2)] pushServer_fields)

lemma validateTextDocument_again:
  assumes "languageId d \<in> set allLanguageIds"
    and "hasConfigurationCapability s1 = hasConfigurationCapability s"
    and "globalSettings s1 = globalSettings s"
    and "documentSettings s1 = documentSettings (snd (getDocumentSettings w s (uri d)))"
  shows "validateTextDocument w s1 d =
     validateTextDocument_resume w s1 d (fst (getDocumentSettings w s (uri d)))"
  by (simp add: validateTextDocument_supported [OF assms(1)]
      getDocumentSettings_again [OF assms(2,3,4)])

section \<open>Starting the re-validations\<close>

lemma start_unsupported:
  "languageId d \<notin> set allLanguageIds \<Longrightarrow> validateTextDocument_start w s d = (s, None)"
  by (simp add: validateTextDocument_start_def)

lemma start_supported:
  "languageId d \<in> set allLanguageIds \<Longrightarrow>
     validateTextDocument_start w s d =
       (snd (getDocumentSettings w s (uri d)), Some (fst (getDocumentSettings w s (uri d))))"
  by (simp add: validateTextDocument_start_def split: prod.splits)

lemma supported_simps:
  "supported [] = []"
  "supported (d # ds) =
     (if languageId d \<in> set allLanguageIds then uri d # supported ds else supported ds)"
  by (simp_all add: supported_def)

lemma forEach_Cons:
  "forEach_validateTextDocument w s (d # ds) =
     (if languageId d \<in> set allLanguageIds
      then (fst (forEach_validateTextDocument w (snd (getDocumentSettings w s (uri d))) ds),
            (d, fst (getDocumentSettings w s (uri d))) #
              snd (forEach_validateTextDocument w (snd (getDocumentSettings w s (uri d))) ds))
      else forEach_validateTextDocument w s ds)"
  by (simp add: start_unsupported start_supported split: prod.splits)

lemma forEach_keeps:
  "hasConfigurationCapability (fst (forEach_validateTextDocument w s ds)) =
     hasConfigurationCapability s
   \<and> globalSettings (fst (forEach_validateTextDocument w s ds)) = globalSettings s
   \<and> collectorMap (fst (forEach_validateTextDocument w s ds)) = collectorMap s
   \<and> scanner (fst (forEach_validateTextDocument w s ds)) = scanner s
   \<and> published (connection (fst (forEach_validateTextDocument w s ds))) =
       published (connection s)"
proof (induction ds arbitrary: s)
  case Nil
  show ?case by simp
next
  case (Cons d ds)
  show ?case
    by (simp only: forEach_Cons split: if_splits)
       (simp add: Cons.IH getDocumentSettings_keeps)
qed

lemma forEach_documentSettings:
  "documentSettings (fst (forEach_validateTextDocument w s ds)) u =
     (if hasConfigurationCapability s \<and> u \<in> set (supported ds) \<and> documentSettings s u = None
      then Some (getConfiguration w u) else documentSettings s u)"
proof (induction ds arbitrary: s)
  case Nil
  show ?case by (simp add: supported_simps)
next
  case (Cons d ds)
  show ?case
    by (simp only: forEach_Cons split: if_splits)
       (auto simp: Cons.IH getDocumentSettings_keeps getDocumentSettings_snd supported_simps)
qed

lemma forEach_suspended:
  "map fst (snd (forEach_validateTextDocument w s ds)) =
     filter (\<lambda>d. languageId d \<in> set allLanguageIds) ds"
proof (induction ds arbitrary: s)
  case Nil
  show ?case by simp
next
  case (Cons d ds)
  show ?case
    by (simp only: forEach_Cons split: if_splits) (simp add: Cons.IH)
qed

lemma forEach_promises:
  "(d, p) \<in> set (snd (forEach_validateTextDocument w s ds)) \<Longrightarrow>
     p = (if hasConfigurationCapability s
          then (case documentSettings s (uri d) of
                  Some r \<Rightarrow> r
                | None \<Rightarrow> getConfiguration w (uri d))
          else Resolved (Some (globalSettings s)))"
proof (induction ds arbitrary: s)
  case Nil
  then show ?case by simp
next
  case (Cons a ds)
  show ?case
  proof (cases "languageId a \<in> set allLanguageIds")
    case False
    with Cons.prems have "(d, p) \<in> set (snd (forEach_validateTextDocument w s ds))"
      unfolding forEach_Cons by simp
    then show ?thesis by (rule Cons.IH)
  next
    case True
    let ?s1 = "snd (getDocumentSettings w s (uri a))"
    from Cons.prems True
    consider "d = a" "p = fst (getDocumentSettings w s (uri a))"
      | "(d, p) \<in> set (snd (forEach_validateTextDocument w ?s1 ds))"
      unfolding forEach_Cons by auto
    then show ?thesis
    proof cases
      case 1
      then show ?thesis by (auto simp: getDocumentSettings_fst)
    next
      case 2
      from Cons.IH [OF 2] show ?thesis
        by (auto simp: getDocumentSettings_keeps getDocumentSettings_snd split: if_splits)
    qed
  qed
qed

text \<open>
  The handler on a notification it does not throw on: the settings are reset, every
  collector is cleared, and a run is started for every open document; those of the
  supported documents are suspended on freshly requested settings (with the
  configuration capability) or on the new global record (without), and nothing is
  published before the handler returns.
\<close>

lemma onDidChangeConfiguration_settings_object:
  assumes "hasConfigurationCapability s \<or> settings change = Some obj"
  shows "\<exists>s' suspended. onDidChangeConfiguration w s change = Inr (s', suspended)
     \<and> map fst suspended = filter (\<lambda>d. languageId d \<in> set allLanguageIds) (documents s)
     \<and> collectorMap s' = (\<lambda>u. map_option clearAll (collectorMap s u))
     \<and> published (connection s') = published (connection s)
     \<and> (if hasConfigurationCapability s
        then globalSettings s' = globalSettings s
           \<and> (\<forall>u. documentSettings s' u =
                 (if u \<in> set (supportedOpenUris s) then Some (getConfiguration w u) else None))
           \<and> (\<forall>(d, p) \<in> set suspended. p = getConfiguration w (uri d))
        else globalSettings s' =
               (case languageServerExample obj of Some g \<Rightarrow> g | None \<Rightarrow> defaultSettings)
           \<and> documentSettings s' = documentSettings s
           \<and> (\<forall>(d, p) \<in> set suspended.
                 p = Resolved (Some (case languageServerExample obj of
                                       Some g \<Rightarrow> g
                                     | None \<Rightarrow> defaultSettings))))"
proof -
  define s1 where "s1 = s\<lparr>connection := connection s @ [ConsoleLog (Json change)]\<rparr>"
  define s2 where "s2 =
    (if hasConfigurationCapability s then s1\<lparr>documentSettings := Map.empty\<rparr>
     else s1\<lparr>globalSettings :=
       (case languageServerExample obj of Some g \<Rightarrow> g | None \<Rightarrow> defaultSettings)\<rparr>)"
  define s3 where "s3 = s2\<lparr>collectorMap := (\<lambda>u. map_option clearAll (collectorMap s2 u))\<rparr>"
  define r where "r = forEach_validateTextDocument w s3 (documents s)"
  have s3: "hasConfigurationCapability s3 = hasConfigurationCapability s"
    "documents s3 = documents s"
    "collectorMap s3 = (\<lambda>u. map_option clearAll (collectorMap s u))"
    "published (connection s3) = published (connection s)"
    "documentSettings s3 = (if hasConfigurationCapability s then Map.empty else documentSettings s)"
    "globalSettings s3 = (if hasConfigurationCapability s then globalSettings s
       else (case languageServerExample obj of Some g \<Rightarrow> g | None \<Rightarrow> defaultSettings))"
    by (simp_all add: s3_def s2_def s1_def published_append)
  have res: "onDidChangeConfiguration w s change = Inr (fst r, snd r)"
    using assms
    by (auto simp: onDidChangeConfiguration_def Let_def r_def s3_def s2_def s1_def)
  have m: "map fst (snd r) = filter (\<lambda>d. languageId d \<in> set allLanguageIds) (documents s)"
    by (simp add: r_def forEach_suspended)
  have c: "collectorMap (fst r) = (\<lambda>u. map_option clearAll (collectorMap s u))"
    by (simp add: r_def forEach_keeps s3)
  have p: "published (connection (fst r)) = published (connection s)"
    by (simp add: r_def forEach_keeps s3)
  have g: "globalSettings (fst r) = globalSettings s3"
    by (simp add: r_def forEach_keeps)
  have ds: "documentSettings (fst r) u =
     (if hasConfigurationCapability s \<and> u \<in> set (supportedOpenUris s)
      then Some (getConfiguration w u) else documentSettings s3 u)" for u
    by (simp add: r_def forEach_documentSettings s3 supportedOpenUris_def)
  have pr: "(d, q) \<in> set (snd r) \<Longrightarrow>
      q = (if hasConfigurationCapability s then getConfiguration w (uri d)
           else Resolved (Some (globalSettings s3)))" for d q
    using forEach_promises [of d q w s3 "documents s"] by (simp add: r_def s3)
  have rest: "if hasConfigurationCapability s
        then globalSettings (fst r) = globalSettings s
           \<and> (\<forall>u. documentSettings (fst r) u =
                 (if u \<in> set (supportedOpenUris s) then Some (getConfiguration w u) else None))
           \<and> (\<forall>(d, p) \<in> set (snd r). p = getConfiguration w (uri d))
        else globalSettings (fst r) =
               (case languageServerExample obj of Some g \<Rightarrow> g | None \<Rightarrow> defaultSettings)
           \<and> documentSettings (fst r) = documentSettings s
           \<and> (\<forall>(d, p) \<in> set (snd r).
                 p = Resolved (Some (case languageServerExample obj of
                                       Some g \<Rightarrow> g
                                     | None \<Rightarrow> defaultSettings)))"
  proof (cases "hasConfigurationCapability s")
    case True
    then show ?thesis
      using pr by (auto simp: g ds s3)
  next
    case False
    have "documentSettings (fst r) = documentSettings s"
      by (rule ext) (simp add: ds False s3)
    with False show ?thesis
      using pr by (auto simp: g s3)
  qed
  from res m c p rest show ?thesis
    by blast
qed

section \<open>The claims\<close>

text \<open>
  C1. In every validation run of a document with a supported \<open>languageId\<close>, the
  document's collector is cleared before the engine runs, so that no entry of an earlier
  run carries over, and the diagnostics array published at the end holds exactly one
  diagnostic for each entry the collector has at read-back, in the entries' order. A run
  that completes leaves the collector as what the engine made of the empty collector,
  whatever it held before, and publishes the map of those entries. A run that throws
  (on its settings or at \<open>url.parse\<close>) does so before \<open>scanner.setConfig\<close>: the engine
  has not run, nothing is published, and the collector is as it was or empty.
\<close>

theorem validate_clears_collector_one_diagnostic_per_entry:
  assumes "languageId d \<in> set allLanguageIds"
  shows "case validateTextDocument w s d of
      Inr s' \<Rightarrow>
        (\<exists>config. scanner s' = Some config
          \<and> collectorMap s' (uri d) = Some (snd (run w config []))
          \<and> published (connection s') =
              published (connection s) @
                [(uri d,
                  map (\<lambda>entry. toDiagnostic w (hasDiagnosticRelatedInformationCapability s) d
                                 (fst entry))
                    (the (collectorMap s' (uri d))))])
    | Inl (e, s') \<Rightarrow>
        scanner s' = scanner s
        \<and> published (connection s') = published (connection s)
        \<and> (collectorMap s' (uri d) = collectorMap s (uri d)
             \<or> collectorMap s' (uri d) = Some [])"
  using assms
proof (cases rule: validateTextDocument_cases [where w = w and s = s])
  case rejected
  then show ?thesis by (simp add: getDocumentSettings_keeps)
next
  case null
  then show ?thesis by (simp add: getDocumentSettings_keeps)
next
  case (uri st)
  then show ?thesis by (simp add: getDocumentSettings_keeps published_append)
next
  case (ran st pn)
  then show ?thesis
    by (simp add: resume_Pathname getDocumentSettings_keeps published_append
        toDiagnostics_def case_prod_unfold split: RunOutcome.splits)
qed

theorem validate_clears_collector_one_diagnostic_per_entry_witness:
  "languageId tsDoc \<in> set allLanguageIds
   \<and> collectorMap pushServer (uri tsDoc) = Some [(exampleError, ''stale'')]
   \<and> error_of (validateTextDocument exampleWorld pushServer tsDoc) = None
   \<and> collectorMap (state_of (validateTextDocument exampleWorld pushServer tsDoc)) (uri tsDoc) =
       Some [(exampleError, ''needTryCatch'')]
   \<and> published (connection (state_of (validateTextDocument exampleWorld pushServer tsDoc))) =
       [(''a.ts'', [toDiagnostic exampleWorld True tsDoc exampleError])]"
proof -
  note h = tsDoc_supported
  have "\<exists>s'. validateTextDocument exampleWorld pushServer tsDoc = Inr s'
      \<and> scanner s' = Some (configOf defaultSettings tsDoc)"
    by (simp add: validateTextDocument_push [OF h pushServer_fields(1)]
        resume_Pathname [OF url_parse_example(1)] pushServer_fields)
  then obtain s' where v: "validateTextDocument exampleWorld pushServer tsDoc = Inr s'"
    and sc: "scanner s' = Some (configOf defaultSettings tsDoc)"
    by blast
  from validate_clears_collector_one_diagnostic_per_entry [OF h, where w = exampleWorld and s = pushServer] v
  obtain config where c: "scanner s' = Some config"
    "collectorMap s' (uri tsDoc) = Some (snd (run exampleWorld config []))"
    "published (connection s') =
       published (connection pushServer) @
         [(uri tsDoc,
           map (\<lambda>entry. toDiagnostic exampleWorld
                  (hasDiagnosticRelatedInformationCapability pushServer) tsDoc (fst entry))
             (the (collectorMap s' (uri tsDoc))))]"
    by auto
  from c(1) sc have "config = configOf defaultSettings tsDoc"
    by simp
  then have r: "snd (run exampleWorld config []) = [(exampleError, ''needTryCatch'')]"
    by (simp add: run_example)
  have u: "uri tsDoc = ''a.ts''"
    by (simp add: tsDoc_def)
  show ?thesis
    using h v c(2,3) r
    by (simp add: state_of_def error_of_def pushServer_fields u)
qed

text \<open>
  C2. For a document whose \<open>languageId\<close> is not one of javascript, typescript,
  javascriptreact, typescriptreact, validation is a no-op in both modules: the call
  returns with the state as it was (no configuration set on the scanner, no collector or
  cached settings touched, nothing requested or sent over the connection) and leaves no
  run suspended, whatever the engine and the client would have answered.
\<close>

theorem validate_unsupported_noop:
  assumes "languageId d \<notin> set allLanguageIds"
  shows "validateTextDocument w s d = Inr s
     \<and> validateTextDocument_start w s d = (s, None)
     \<and> validate w ss d st = Inr ss"
  using assms
  by (simp add: validateTextDocument_def validateTextDocument_start_def validate_def)

theorem validate_unsupported_noop_witness:
  "languageId pyDoc \<notin> set allLanguageIds
   \<and> validateTextDocument exampleWorld pushServer pyDoc = Inr pushServer
   \<and> validateTextDocument_start exampleWorld pushServer pyDoc = (pushServer, None)
   \<and> validate exampleWorld unboundScannerServer pyDoc defaultSettings = Inr unboundScannerServer"
proof -
  note h = pyDoc_unsupported
  show ?thesis
    using h validate_unsupported_noop [OF h, where w = exampleWorld and s = pushServer
        and ss = unboundScannerServer and st = defaultSettings]
    by simp
qed

text \<open>
  C3 (as the code has it). In every validation run of a supported document, the plugin
  configuration handed to the engine is the settings' \<open>scanPluginsConf\<close> whenever that
  sequence is present, also when it is empty; only when it is absent is it the five
  compiled-in plugins needTryCatch (with option level 2), needHandlerInCatch,
  dangerousAndOperator, dangerousInitState, dangerousDefaultValue, in that order. A run
  that throws hands the engine nothing: the scanner keeps the configuration it had. This
  holds for \<open>validateTextDocument\<close> and for \<open>validate\<close> of a \<open>ScannerServer\<close>.
\<close>

theorem plugin_configuration_nullish_default:
  assumes "languageId d \<in> set allLanguageIds"
  shows "(case validateTextDocument w s d of
            Inr s' \<Rightarrow>
              (\<exists>st. fst (getDocumentSettings w s (uri d)) = Resolved (Some st)
                \<and> map_option cfg_scanPluginsConf (scanner s') =
                    Some (case scanPluginsConf st of
                            Some conf \<Rightarrow> conf
                          | None \<Rightarrow>
                              [\<lparr>plugin = ''needTryCatch'', options = Some [(''level'', 2)]\<rparr>,
                               \<lparr>plugin = ''needHandlerInCatch'', options = None\<rparr>,
                               \<lparr>plugin = ''dangerousAndOperator'', options = None\<rparr>,
                               \<lparr>plugin = ''dangerousInitState'', options = None\<rparr>,
                               \<lparr>plugin = ''dangerousDefaultValue'', options = None\<rparr>]))
          | Inl (e, s') \<Rightarrow> scanner s' = scanner s)
     \<and> (case validate w ss d st' of
            Inr ss' \<Rightarrow>
              map_option cfg_scanPluginsConf (ss_scanner ss') =
                Some (case scanPluginsConf st' of
                        Some conf \<Rightarrow> conf
                      | None \<Rightarrow>
                          [\<lparr>plugin = ''needTryCatch'', options = Some [(''level'', 2)]\<rparr>,
                           \<lparr>plugin = ''needHandlerInCatch'', options = None\<rparr>,
                           \<lparr>plugin = ''dangerousAndOperator'', options = None\<rparr>,
                           \<lparr>plugin = ''dangerousInitState'', options = None\<rparr>,
                           \<lparr>plugin = ''dangerousDefaultValue'', options = None\<rparr>])
          | Inl (e, ss') \<Rightarrow> ss_scanner ss' = ss_scanner ss)"
proof -
  have first: "case validateTextDocument w s d of
            Inr s' \<Rightarrow>
              (\<exists>st. fst (getDocumentSettings w s (uri d)) = Resolved (Some st)
                \<and> map_option cfg_scanPluginsConf (scanner s') =
                    Some (case scanPluginsConf st of
                            Some conf \<Rightarrow> conf
                          | None \<Rightarrow>
                              [\<lparr>plugin = ''needTryCatch'', options = Some [(''level'', 2)]\<rparr>,
                               \<lparr>plugin = ''needHandlerInCatch'', options = None\<rparr>,
                               \<lparr>plugin = ''dangerousAndOperator'', options = None\<rparr>,
                               \<lparr>plugin = ''dangerousInitState'', options = None\<rparr>,
                               \<lparr>plugin = ''dangerousDefaultValue'', options = None\<rparr>]))
          | Inl (e, s') \<Rightarrow> scanner s' = scanner s"
    using assms
proof (cases rule: validateTextDocument_cases [where w = w and s = s])
    case rejected
    then show ?thesis by (simp add: getDocumentSettings_keeps)
  next
    case null
    then show ?thesis by (simp add: getDocumentSettings_keeps)
  next
    case (uri st)
    then show ?thesis by (simp add: getDocumentSettings_keeps)
  next
    case (ran st pn)
    then show ?thesis
      by (simp add: resume_Pathname configOf_def nullish_scanPluginsConf_def
          defaultScannerConfig_def split: option.splits)
  qed
  have second: "case validate w ss d st' of
            Inr ss' \<Rightarrow>
              map_option cfg_scanPluginsConf (ss_scanner ss') =
                Some (case scanPluginsConf st' of
                        Some conf \<Rightarrow> conf
                      | None \<Rightarrow>
                          [\<lparr>plugin = ''needTryCatch'', options = Some [(''level'', 2)]\<rparr>,
                           \<lparr>plugin = ''needHandlerInCatch'', options = None\<rparr>,
                           \<lparr>plugin = ''dangerousAndOperator'', options = None\<rparr>,
                           \<lparr>plugin = ''dangerousInitState'', options = None\<rparr>,
                           \<lparr>plugin = ''dangerousDefaultValue'', options = None\<rparr>])
          | Inl (e, ss') \<Rightarrow> ss_scanner ss' = ss_scanner ss"
  proof (cases "ss_connection ss")
    case None
    then show ?thesis by (simp add: validate_unbound [OF assms])
  next
    case (Some c)
    show ?thesis
    proof (cases "url_parse w (uri d)")
      case UrlThrows
      then show ?thesis by (simp add: validate_UrlThrows [OF assms Some])
    next
      case (Pathname pn)
      then show ?thesis
        by (simp add: validate_bound [OF assms Some] configOf_def nullish_scanPluginsConf_def
            defaultScannerConfig_def split: option.splits)
    qed
  qed
  from first second show ?thesis ..
qed

text \<open>
  The claim as stated fails on a present, empty sequence: the engine is handed the empty
  configuration, not the five defaults.
\<close>

theorem plugin_configuration_empty_counterexample:
  "languageId tsDoc \<in> set allLanguageIds
   \<and> fst (getDocumentSettings exampleWorld emptyConfServer (uri tsDoc)) =
       Resolved (Some emptyConfSettings)
   \<and> scanPluginsConf emptyConfSettings = Some []
   \<and> error_of (validateTextDocument exampleWorld emptyConfServer tsDoc) = None
   \<and> map_option cfg_scanPluginsConf
       (scanner (state_of (validateTextDocument exampleWorld emptyConfServer tsDoc))) = Some []
   \<and> scanPlugins defaultScannerConfig \<noteq> []"
proof -
  have p: "\<not> hasConfigurationCapability emptyConfServer"
    "globalSettings emptyConfServer = emptyConfSettings"
    by (simp_all add: emptyConfServer_def pushServer_def)
  show ?thesis
    by (simp add: tsDoc_supported validateTextDocument_push [OF tsDoc_supported p(1)]
        resume_Pathname [OF url_parse_example(1)] p getDocumentSettings_fst
        state_of_def error_of_def configOf_def nullish_scanPluginsConf_def
        emptyConfSettings_def defaultScannerConfig_def)
qed

theorem plugin_configuration_nullish_default_witness:
  "languageId newDoc \<in> set allLanguageIds
   \<and> fst (getDocumentSettings exampleWorld pullServer (uri newDoc)) =
       Resolved (Some \<lparr>maxNumberOfProblems = 100, scanPluginsConf = None\<rparr>)
   \<and> scanPluginsConf emptyConfSettings = Some []
   \<and> error_of (validateTextDocument exampleWorld pullServer newDoc) = None
   \<and> map_option cfg_scanPluginsConf
       (scanner (state_of (validateTextDocument exampleWorld pullServer newDoc))) =
       Some [\<lparr>plugin = ''needTryCatch'', options = Some [(''level'', 2)]\<rparr>,
             \<lparr>plugin = ''needHandlerInCatch'', options = None\<rparr>,
             \<lparr>plugin = ''dangerousAndOperator'', options = None\<rparr>,
             \<lparr>plugin = ''dangerousInitState'', options = None\<rparr>,
             \<lparr>plugin = ''dangerousDefaultValue'', options = None\<rparr>]
   \<and> error_of (validate exampleWorld boundScannerServer newDoc emptyConfSettings) = None
   \<and> map_option cfg_scanPluginsConf
       (ss_scanner (state_of (validate exampleWorld boundScannerServer newDoc emptyConfSettings))) =
       Some []"
proof -
  note h = newDoc_supported
  have g: "fst (getDocumentSettings exampleWorld pullServer (uri newDoc)) =
      Resolved (Some \<lparr>maxNumberOfProblems = 100, scanPluginsConf = None\<rparr>)"
    by (simp add: getDocumentSettings_fst pullServer_def pushServer_def exampleWorld_def
        newDoc_def)
  have v: "\<exists>s'. validateTextDocument exampleWorld pullServer newDoc = Inr s'"
    by (simp add: validateTextDocument_supported [OF h] g
        resume_Pathname [OF url_parse_example(2)])
  have b: "\<exists>ss'. validate exampleWorld boundScannerServer newDoc emptyConfSettings = Inr ss'"
    by (simp add: validate_bound [OF h _ url_parse_example(2)] boundScannerServer_def
        bindConnection_def)
  have sp: "scanPluginsConf emptyConfSettings = Some []"
    by (simp add: emptyConfSettings_def)
  from v b obtain s' ss' where
    e: "validateTextDocument exampleWorld pullServer newDoc = Inr s'"
      "validate exampleWorld boundScannerServer newDoc emptyConfSettings = Inr ss'"
    by blast
  show ?thesis
    using plugin_configuration_nullish_default [OF h, where w = exampleWorld and s = pullServer
        and ss = boundScannerServer and st' = emptyConfSettings] h
    by (simp add: e g state_of_def error_of_def sp)
qed


text \<open>
  C4 (as the code has it). In a run of \<open>validateTextDocument\<close> that gets to the mapping,
  every entry of the collector becomes a diagnostic whose severity is the entry's
  \<open>errorLevel\<close>, whose message is the level's name, \<open>: \<close> and \<open>pluginTips\<close>, and whose
  \<open>relatedInformation\<close> holds one element (the document's URI, the diagnostic's own
  range, \<open>extraMsg\<close> as the message) exactly when the negotiated related-information
  capability is true and \<open>extraMsg\<close> is present and not the empty string; otherwise the
  field is absent.
\<close>

theorem diagnostic_mapping:
  assumes "languageId d \<in> set allLanguageIds"
    and "validateTextDocument w s d = Inr s'"
  shows "published (connection s') =
      published (connection s) @
        [(uri d,
          map (\<lambda>(error, type).
                 \<lparr>severity = errorLevel error,
                  drange = \<lparr>range_start = positionAt w d (fst (err_range error)),
                            range_end = positionAt w d (snd (err_range error))\<rparr>,
                  message = ErrorLevel_name (errorLevel error) @ '': '' @ pluginTips error,
                  source = ''code-scanner'',
                  relatedInformation =
                    (if hasDiagnosticRelatedInformationCapability s
                        \<and> extraMsg error \<noteq> None \<and> extraMsg error \<noteq> Some []
                     then Some [\<lparr>location =
                                   \<lparr>loc_uri = uri d,
                                    loc_range =
                                      \<lparr>range_start = positionAt w d (fst (err_range error)),
                                       range_end = positionAt w d (snd (err_range error))\<rparr>\<rparr>,
                                 ri_message = the (extraMsg error)\<rparr>]
                     else None)\<rparr>)
            (the (collectorMap s' (uri d))))]"
  using assms(1)
proof (cases rule: validateTextDocument_cases [where w = w and s = s])
  case rejected
  with assms(2) show ?thesis by simp
next
  case null
  with assms(2) show ?thesis by simp
next
  case (uri st)
  with assms(2) show ?thesis by simp
next
  case (ran st pn)
  with assms(2) show ?thesis
    by (auto simp: resume_Pathname getDocumentSettings_keeps published_append
        toDiagnostics_def toDiagnostic_def truthy_def Let_def
        split: option.splits RunOutcome.splits)
qed

text \<open>
  The claim as stated fails on a finding whose \<open>extraMsg\<close> is present and empty: with the
  capability negotiated, the diagnostic still has no \<open>relatedInformation\<close>.
\<close>

theorem related_information_empty_extraMsg_counterexample:
  "languageId tsDoc \<in> set allLanguageIds
   \<and> hasDiagnosticRelatedInformationCapability pushServer
   \<and> error_of (validateTextDocument emptyMsgWorld pushServer tsDoc) = None
   \<and> collectorMap (state_of (validateTextDocument emptyMsgWorld pushServer tsDoc)) (uri tsDoc) =
       Some [(emptyMsgError, ''needTryCatch'')]
   \<and> extraMsg emptyMsgError = Some []
   \<and> map relatedInformation
       (concat (map snd (published (connection
          (state_of (validateTextDocument emptyMsgWorld pushServer tsDoc)))))) = [None]"
  by (simp add: validateTextDocument_push_example [OF tsDoc_supported url_parse_example(6)]
      tsDoc_supported run_example state_of_def error_of_def pushServer_fields
      toDiagnostics_def toDiagnostic_def truthy_def emptyMsgError_def)

theorem diagnostic_mapping_witness:
  "languageId tsDoc \<in> set allLanguageIds
   \<and> validateTextDocument exampleWorld pushServer tsDoc =
       Inr (state_of (validateTextDocument exampleWorld pushServer tsDoc))
   \<and> published (connection (state_of (validateTextDocument exampleWorld pushServer tsDoc))) =
       [(''a.ts'',
         [\<lparr>severity = Warning,
           drange = \<lparr>range_start = \<lparr>line = 0, character = 10\<rparr>,
                     range_end = \<lparr>line = 0, character = 20\<rparr>\<rparr>,
           message = ''Warning: need try catch'',
           source = ''code-scanner'',
           relatedInformation =
             Some [\<lparr>location = \<lparr>loc_uri = ''a.ts'',
                       loc_range = \<lparr>range_start = \<lparr>line = 0, character = 10\<rparr>,
                                    range_end = \<lparr>line = 0, character = 20\<rparr>\<rparr>\<rparr>,
                    ri_message = ''wrap the call''\<rparr>]\<rparr>])]"
proof -
  note h = tsDoc_supported
  have v: "validateTextDocument exampleWorld pushServer tsDoc =
       Inr (state_of (validateTextDocument exampleWorld pushServer tsDoc))"
    by (simp add: validateTextDocument_push_example [OF h url_parse_example(1)] state_of_def)
  have c: "collectorMap (state_of (validateTextDocument exampleWorld pushServer tsDoc)) (uri tsDoc) =
      Some [(exampleError, ''needTryCatch'')]"
    by (simp add: validateTextDocument_push_example [OF h url_parse_example(1)] state_of_def
        run_example)
  show ?thesis
    using diagnostic_mapping [OF h v] h v
    unfolding c
    by (simp add: pushServer_def exampleError_def exampleWorld_def tsDoc_def)
qed

text \<open>
  C5 (as the code has it). After a \<open>didClose\<close> notification for the URI of an open
  document, the document is no longer open and the settings cache has no entry for the
  URI; the collector registry is left as it was, so a collector registered for the URI
  stays registered.
\<close>

theorem didClose_drops_settings_keeps_collector:
  assumes "u \<in> set (map uri (documents s))"
  shows "u \<notin> set (map uri (documents (didClose s u)))
     \<and> documentSettings (didClose s u) u = None
     \<and> collectorMap (didClose s u) = collectorMap s"
proof -
  from assms obtain d where d: "find (\<lambda>d. uri d = u) (documents s) = Some d"
    by (cases "find (\<lambda>d. uri d = u) (documents s)") (auto simp: find_None_iff)
  then have "uri d = u"
    by (auto simp: find_Some_iff)
  with d show ?thesis
    by (auto simp: didClose_def onDidClose_def)
qed

text \<open>
  The claim as stated fails: closing the open document \<open>a.ts\<close> leaves its collector,
  stale entry included, in the registry.
\<close>

theorem didClose_collector_counterexample:
  "''a.ts'' \<in> set (map uri (documents pullServer))
   \<and> collectorMap pullServer ''a.ts'' \<noteq> None
   \<and> collectorMap (didClose pullServer ''a.ts'') ''a.ts'' = Some [(exampleError, ''stale'')]"
  by (simp add: didClose_def onDidClose_def pullServer_def pushServer_def tsDoc_def)

theorem didClose_drops_settings_keeps_collector_witness:
  "''a.ts'' \<in> set (map uri (documents pullServer))
   \<and> documentSettings pullServer ''a.ts'' = Some (Resolved (Some defaultSettings))
   \<and> ''a.ts'' \<notin> set (map uri (documents (didClose pullServer ''a.ts'')))
   \<and> documentSettings (didClose pullServer ''a.ts'') ''a.ts'' = None
   \<and> collectorMap (didClose pullServer ''a.ts'') = collectorMap pullServer"
proof -
  have h: "''a.ts'' \<in> set (map uri (documents pullServer))"
    by (simp add: pullServer_def pushServer_def tsDoc_def)
  show ?thesis
    using didClose_drops_settings_keeps_collector [OF h] h by (simp add: pullServer_def)
qed

text \<open>
  C6. A validation run of a supported document that gets to the engine (its settings
  are a settings object and \<open>url.parse\<close> accepts its URI) returns normally whatever the
  engine does. When the engine's run throws, having left the entries \<open>es\<close> in the
  collector, the failure is caught and logged with \<open>console.error\<close>, and the run goes on
  to publish the diagnostics of exactly those entries (possibly none), followed by its
  two closing messages.
\<close>

theorem engine_failure_fail_soft:
  assumes "languageId d \<in> set allLanguageIds"
    and "fst (getDocumentSettings w s (uri d)) = Resolved (Some st)"
    and "url_parse w (uri d) = Pathname pn"
  shows "\<exists>s' config. validateTextDocument w s d = Inr s'
     \<and> scanner s' = Some config
     \<and> (\<forall>es. run w config [] = (Failed, es) \<longrightarrow>
          connection s' =
            connection (snd (getDocumentSettings w s (uri d))) @
              [ConsoleLog (Text (uri d)),
               ConsoleLog (ParsedPath (case pn of None \<Rightarrow> [] | Some p \<Rightarrow> p)),
               ConsoleLog (Number (version d)),
               ConsoleError ''code parse error!'',
               SendDiagnostics (uri d)
                 (toDiagnostics w (hasDiagnosticRelatedInformationCapability s) d es),
               SendRequest ''request'' ''send request'',
               SendNotification ''notification'' ''send notification'']
          \<and> collectorMap s' (uri d) = Some es)"
  using assms
  by (simp add: validateTextDocument_supported resume_Pathname getDocumentSettings_keeps)

theorem engine_failure_fail_soft_witness:
  "languageId brokenDoc \<in> set allLanguageIds
   \<and> fst (getDocumentSettings exampleWorld pushServer (uri brokenDoc)) =
       Resolved (Some defaultSettings)
   \<and> url_parse exampleWorld (uri brokenDoc) = Pathname (Some ''b.js'')
   \<and> error_of (validateTextDocument exampleWorld pushServer brokenDoc) = None
   \<and> scanner (state_of (validateTextDocument exampleWorld pushServer brokenDoc)) =
       Some (configOf defaultSettings brokenDoc)
   \<and> run exampleWorld (configOf defaultSettings brokenDoc) [] =
       (Failed, [(exampleError, ''needTryCatch'')])
   \<and> connection (state_of (validateTextDocument exampleWorld pushServer brokenDoc)) =
       [ConsoleLog (Text ''b.js''), ConsoleLog (ParsedPath ''b.js''), ConsoleLog (Number 1),
        ConsoleError ''code parse error!'',
        SendDiagnostics ''b.js'' [toDiagnostic exampleWorld True brokenDoc exampleError],
        SendRequest ''request'' ''send request'',
        SendNotification ''notification'' ''send notification'']
   \<and> collectorMap (state_of (validateTextDocument exampleWorld pushServer brokenDoc)) ''b.js'' =
       Some [(exampleError, ''needTryCatch'')]"
proof -
  note h = brokenDoc_supported
  have g: "fst (getDocumentSettings exampleWorld pushServer (uri brokenDoc)) =
       Resolved (Some defaultSettings)"
    "snd (getDocumentSettings exampleWorld pushServer (uri brokenDoc)) = pushServer"
    by (simp_all add: getDocumentSettings_fst getDocumentSettings_snd pushServer_fields)
  note p = url_parse_example(4)
  from engine_failure_fail_soft [OF h g(1) p]
  obtain s' config where v: "validateTextDocument exampleWorld pushServer brokenDoc = Inr s'"
    and sc: "scanner s' = Some config"
    and f: "\<And>es. run exampleWorld config [] = (Failed, es) \<Longrightarrow>
          connection s' =
            connection (snd (getDocumentSettings exampleWorld pushServer (uri brokenDoc))) @
              [ConsoleLog (Text (uri brokenDoc)),
               ConsoleLog (ParsedPath (case Some ''b.js'' of None \<Rightarrow> [] | Some p \<Rightarrow> p)),
               ConsoleLog (Number (version brokenDoc)),
               ConsoleError ''code parse error!'',
               SendDiagnostics (uri brokenDoc)
                 (toDiagnostics exampleWorld
                    (hasDiagnosticRelatedInformationCapability pushServer) brokenDoc es),
               SendRequest ''request'' ''send request'',
               SendNotification ''notification'' ''send notification'']
          \<and> collectorMap s' (uri brokenDoc) = Some es"
    by blast
  have "scanner s' = Some (configOf defaultSettings brokenDoc)"
    using v by (auto simp: validateTextDocument_push_example [OF h p])
  with sc have c: "config = configOf defaultSettings brokenDoc"
    by simp
  have u: "uri brokenDoc = ''b.js''" "version brokenDoc = 1"
    by (simp_all add: brokenDoc_def)
  have g': "snd (getDocumentSettings exampleWorld pushServer ''b.js'') = pushServer"
    using g(2) by (simp add: u)
  show ?thesis
    using f [of "[(exampleError, ''needTryCatch'')]"] h g(1) p v sc
    by (simp add: c run_example g' state_of_def error_of_def pushServer_fields u
        toDiagnostics_def)
qed


text \<open>
  C7. On a \<open>workspace/didChangeConfiguration\<close> notification in push mode the global
  settings are to be replaced (by the compiled-in default when the payload is absent),
  every collector cleared and every open document re-validated. The handler falls back
  to the default when the \<open>languageServerExample\<close> section is absent, but reads that
  section from \<open>change.settings\<close> without a guard: on the notification whose \<open>settings\<close>
  is \<open>null\<close> it throws a TypeError after its log line, and the stale collector of the
  open document \<open>a.ts\<close> is not cleared, the global record is not replaced and no run is
  started. On a settings object without the section the same server falls back, clears
  the collector and starts the run (lemma \<open>onDidChangeConfiguration_settings_object\<close>
  has the general statement).
\<close>

theorem didChangeConfiguration_null_settings_throws:
  "\<not> hasConfigurationCapability pushServer
   \<and> documents pushServer = [tsDoc]
   \<and> collectorMap pushServer ''a.ts'' = Some [(exampleError, ''stale'')]
   \<and> onDidChangeConfiguration exampleWorld pushServer \<lparr>settings = None\<rparr> =
       Inl (TypeError,
            pushServer\<lparr>connection := [ConsoleLog (Json \<lparr>settings = None\<rparr>)]\<rparr>)
   \<and> onDidChangeConfiguration exampleWorld pushServer
         \<lparr>settings = Some \<lparr>languageServerExample = None\<rparr>\<rparr> =
       Inr (pushServer\<lparr>connection :=
                [ConsoleLog (Json \<lparr>settings = Some \<lparr>languageServerExample = None\<rparr>\<rparr>)],
              globalSettings := defaultSettings,
              collectorMap := [''a.ts'' \<mapsto> []]\<rparr>,
            [(tsDoc, Resolved (Some defaultSettings))])"
proof -
  have m: "(\<lambda>u. map_option clearAll
              (if u = ''a.ts'' then Some [(exampleError, ''stale'')] else None)) =
      [''a.ts'' \<mapsto> []]"
    by (auto simp: fun_eq_iff clearAll_def)
  show ?thesis
    by (simp add: onDidChangeConfiguration_def Let_def pushServer_def m
        validateTextDocument_start_def getDocumentSettings_def tsDoc_supported)
qed

text \<open>
  C8 (as the code has it). A validation run of a supported document whose settings are
  a settings object and whose URI \<open>url.parse\<close> accepts ends by publishing one
  diagnostics array for the document's URI, followed only by the two closing messages
  and preceded in the run by no other publication; the array has one element for each
  entry of the collector, so it is published also when it is empty, and also when the
  engine throws. This holds for \<open>validateTextDocument\<close> and for \<open>validate\<close> of a
  \<open>ScannerServer\<close> after \<open>bindConnection\<close>.
\<close>

theorem validate_publishes_past_settings_and_uri:
  assumes "languageId d \<in> set allLanguageIds"
    and "fst (getDocumentSettings w s (uri d)) = Resolved (Some st0)"
    and "url_parse w (uri d) = Pathname pn"
  shows "(\<exists>s' pre ds. validateTextDocument w s d = Inr s'
          \<and> connection s' =
              connection s @ pre @
                [SendDiagnostics (uri d) ds,
                 SendRequest ''request'' ''send request'',
                 SendNotification ''notification'' ''send notification'']
          \<and> published pre = []
          \<and> length ds = length (the (collectorMap s' (uri d))))
     \<and> (\<exists>ss' pre ds. validate w (bindConnection ss c) d st = Inr ss'
          \<and> ss_connection ss' =
              Some (c @ pre @
                [SendDiagnostics (uri d) ds,
                 SendRequest ''request'' ''send request'',
                 SendNotification ''notification'' ''send notification''])
          \<and> published pre = []
          \<and> length ds = length (the (ss_collectorMap ss' (uri d))))"
proof -
  let ?s1 = "snd (getDocumentSettings w s (uri d))"
  let ?logs = "\<lambda>cfg. [ConsoleLog (Text (uri d)),
            ConsoleLog (ParsedPath (case pn of None \<Rightarrow> [] | Some p \<Rightarrow> p)),
            ConsoleLog (Number (version d))] @
           (case fst (run w cfg []) of
              Completed \<Rightarrow> []
            | Failed \<Rightarrow> [ConsoleError ''code parse error!''])"
  have pl: "published (?logs cfg) = []" for cfg
    by (simp split: RunOutcome.splits)
  have eq: "validateTextDocument w s d =
      validateTextDocument_resume w ?s1 d (Resolved (Some st0))"
    using assms(2) by (simp add: validateTextDocument_supported [OF assms(1)])
  obtain q where q: "connection ?s1 = connection s @ q" "published q = []"
    by (cases "hasConfigurationCapability s \<and> documentSettings s (uri d) = None")
       (auto simp: getDocumentSettings_snd)
  have first: "\<exists>s' pre ds. validateTextDocument w s d = Inr s'
          \<and> connection s' =
              connection s @ pre @
                [SendDiagnostics (uri d) ds,
                 SendRequest ''request'' ''send request'',
                 SendNotification ''notification'' ''send notification'']
          \<and> published pre = []
          \<and> length ds = length (the (collectorMap s' (uri d)))"
  proof -
    define s' where "s' = state_of (validateTextDocument w s d)"
    let ?es = "snd (run w (configOf st0 d) [])"
    let ?ds = "toDiagnostics w (hasDiagnosticRelatedInformationCapability s) d ?es"
    have v: "validateTextDocument w s d = Inr s'"
      by (simp add: s'_def eq resume_Pathname [OF assms(3)] state_of_def)
    have cn: "connection s' =
        connection s @ (q @ ?logs (configOf st0 d)) @
          [SendDiagnostics (uri d) ?ds,
           SendRequest ''request'' ''send request'',
           SendNotification ''notification'' ''send notification'']"
      by (simp add: s'_def eq resume_Pathname [OF assms(3)] state_of_def q
          getDocumentSettings_keeps)
    have pq: "published (q @ ?logs (configOf st0 d)) = []"
      using q(2) pl [of "configOf st0 d"] by (simp only: published_append) simp
    have len: "length ?ds = length (the (collectorMap s' (uri d)))"
      by (simp add: s'_def eq resume_Pathname [OF assms(3)] state_of_def toDiagnostics_def)
    from v cn pq len show ?thesis
      by blast
  qed
  have second: "\<exists>ss' pre ds. validate w (bindConnection ss c) d st = Inr ss'
          \<and> ss_connection ss' =
              Some (c @ pre @
                [SendDiagnostics (uri d) ds,
                 SendRequest ''request'' ''send request'',
                 SendNotification ''notification'' ''send notification''])
          \<and> published pre = []
          \<and> length ds = length (the (ss_collectorMap ss' (uri d)))"
  proof -
    define ss' where "ss' = state_of (validate w (bindConnection ss c) d st)"
    let ?es = "snd (run w (configOf st d) [])"
    let ?ds = "toDiagnostics w (ss_allowRelatedInformation (bindConnection ss c)) d ?es"
    note vb = validate_bound [OF assms(1) bindConnection_bound assms(3)]
    have v: "validate w (bindConnection ss c) d st = Inr ss'"
      by (simp add: ss'_def vb state_of_def)
    have cn: "ss_connection ss' =
        Some (c @ ?logs (configOf st d) @
          [SendDiagnostics (uri d) ?ds,
           SendRequest ''request'' ''send request'',
           SendNotification ''notification'' ''send notification''])"
      by (simp add: ss'_def vb state_of_def)
    have len: "length ?ds = length (the (ss_collectorMap ss' (uri d)))"
      by (simp add: ss'_def vb state_of_def toDiagnostics_def)
    from v cn pl [of "configOf st d"] len show ?thesis
      by blast
  qed
  from first second show ?thesis by blast
qed

text \<open>
  The claim as stated fails on runs of supported documents that throw outside the \<open>try\<close>
  and publish nothing: when the client answers the configuration request with \<open>null\<close>,
  when \<open>url.parse\<close> throws on the URI (in both modules), and on a \<open>ScannerServer\<close>
  without a connection.
\<close>

theorem validate_throws_without_publishing_counterexample:
  "languageId newDoc \<in> set allLanguageIds
   \<and> error_of (validateTextDocument nullWorld pullServer newDoc) = Some TypeError
   \<and> published (connection (state_of (validateTextDocument nullWorld pullServer newDoc))) = []
   \<and> languageId badUriDoc \<in> set allLanguageIds
   \<and> error_of (validateTextDocument exampleWorld pushServer badUriDoc) = Some URIError
   \<and> published (connection (state_of (validateTextDocument exampleWorld pushServer badUriDoc))) = []
   \<and> error_of (validate exampleWorld boundScannerServer badUriDoc defaultSettings) = Some URIError
   \<and> published (the (ss_connection
        (state_of (validate exampleWorld boundScannerServer badUriDoc defaultSettings)))) = []
   \<and> error_of (validate exampleWorld unboundScannerServer tsDoc defaultSettings) = Some TypeError
   \<and> ss_connection (state_of (validate exampleWorld unboundScannerServer tsDoc defaultSettings)) =
       None"
proof -
  have n: "fst (getDocumentSettings nullWorld pullServer (uri newDoc)) = Resolved None"
    "published (connection (snd (getDocumentSettings nullWorld pullServer (uri newDoc)))) = []"
    by (simp_all add: getDocumentSettings_fst getDocumentSettings_snd published_append
        nullWorld_def pullServer_def pushServer_def newDoc_def)
  have a: "error_of (validateTextDocument nullWorld pullServer newDoc) = Some TypeError"
    "published (connection (state_of (validateTextDocument nullWorld pullServer newDoc))) = []"
    by (simp_all add: validateTextDocument_supported [OF newDoc_supported] n resume_null
        error_of_def state_of_def)
  have b: "error_of (validateTextDocument exampleWorld pushServer badUriDoc) = Some URIError"
    "published (connection (state_of (validateTextDocument exampleWorld pushServer badUriDoc))) = []"
    by (simp_all add: validateTextDocument_push [OF badUriDoc_supported pushServer_fields(1)]
        resume_UrlThrows [OF url_parse_example(5)] error_of_def state_of_def
        pushServer_fields)
  have bc: "ss_connection boundScannerServer = Some []" "ss_connection unboundScannerServer = None"
    by (simp_all add: boundScannerServer_def bindConnection_def unboundScannerServer_def
        new_ScannerServer_def)
  have c: "error_of (validate exampleWorld boundScannerServer badUriDoc defaultSettings) = Some URIError"
    "published (the (ss_connection
        (state_of (validate exampleWorld boundScannerServer badUriDoc defaultSettings)))) = []"
    by (simp_all add: validate_UrlThrows [OF badUriDoc_supported bc(1) url_parse_example(5)]
        error_of_def state_of_def)
  have d: "error_of (validate exampleWorld unboundScannerServer tsDoc defaultSettings) = Some TypeError"
    "ss_connection (state_of (validate exampleWorld unboundScannerServer tsDoc defaultSettings)) =
       None"
    by (simp_all add: validate_unbound [OF tsDoc_supported bc(2)] error_of_def state_of_def bc)
  from a b c d newDoc_supported badUriDoc_supported show ?thesis
    by blast
qed

theorem validate_publishes_past_settings_and_uri_witness:
  "languageId emptyDoc \<in> set allLanguageIds
   \<and> fst (getDocumentSettings exampleWorld pushServer (uri emptyDoc)) =
       Resolved (Some defaultSettings)
   \<and> url_parse exampleWorld (uri emptyDoc) = Pathname (Some ''e.js'')
   \<and> error_of (validateTextDocument exampleWorld pushServer emptyDoc) = None
   \<and> published (connection (state_of (validateTextDocument exampleWorld pushServer emptyDoc))) =
       [(''e.js'', [])]
   \<and> error_of (validate exampleWorld boundScannerServer emptyDoc defaultSettings) = None
   \<and> published (the (ss_connection
        (state_of (validate exampleWorld boundScannerServer emptyDoc defaultSettings)))) =
       [(''e.js'', [])]"
proof -
  note h = emptyDoc_supported
  have g: "fst (getDocumentSettings exampleWorld pushServer (uri emptyDoc)) =
       Resolved (Some defaultSettings)"
    by (simp add: getDocumentSettings_fst pushServer_fields)
  note p = url_parse_example(3)
  have u: "uri emptyDoc = ''e.js''"
    by (simp add: emptyDoc_def)
  have bc: "ss_connection boundScannerServer = Some []"
    by (simp add: boundScannerServer_def bindConnection_def)
  have c1: "collectorMap (state_of (validateTextDocument exampleWorld pushServer emptyDoc))
      (uri emptyDoc) = Some []"
    by (simp add: validateTextDocument_push_example [OF h p] run_example state_of_def)
  have c2: "ss_collectorMap (state_of (validate exampleWorld boundScannerServer emptyDoc defaultSettings))
      (uri emptyDoc) = Some []"
    by (simp add: validate_bound [OF h bc p] run_example state_of_def)
  from validate_publishes_past_settings_and_uri [OF h g p, where ss = unboundScannerServer and c = "[]" and st = defaultSettings]
  obtain s' pre ds ss' pre' ds' where
    a: "validateTextDocument exampleWorld pushServer emptyDoc = Inr s'"
      "connection s' =
            connection pushServer @ pre @
              [SendDiagnostics (uri emptyDoc) ds,
               SendRequest ''request'' ''send request'',
               SendNotification ''notification'' ''send notification'']"
      "published pre = []"
      "length ds = length (the (collectorMap s' (uri emptyDoc)))"
    and b: "validate exampleWorld boundScannerServer emptyDoc defaultSettings = Inr ss'"
      "ss_connection ss' =
              Some ([] @ pre' @
                [SendDiagnostics (uri emptyDoc) ds',
                 SendRequest ''request'' ''send request'',
                 SendNotification ''notification'' ''send notification''])"
      "published pre' = []"
      "length ds' = length (the (ss_collectorMap ss' (uri emptyDoc)))"
    unfolding boundScannerServer_def [symmetric] by blast
  have "ds = []" using a(1,4) c1 by (simp add: state_of_def)
  moreover have "ds' = []" using b(1,4) c2 by (simp add: state_of_def)
  ultimately show ?thesis
    using h g p a(1,2,3) b(1,2,3)
    by (simp add: state_of_def error_of_def pushServer_fields u published_append)
qed


text \<open>
  C9. Idempotence: validating the same document twice in a row, against the same engine
  and client and with no event in between, ends the same way both times and publishes
  the same diagnostics array both times: one array \<open>ds\<close> each when the document is
  supported and the run does not throw, and nothing either time otherwise.
\<close>

theorem validate_idempotent:
  "\<exists>ds. error_of (validateTextDocument w (state_of (validateTextDocument w s d)) d) =
          error_of (validateTextDocument w s d)
      \<and> published (connection (state_of (validateTextDocument w s d))) =
          published (connection s) @
            (if languageId d \<in> set allLanguageIds \<and> error_of (validateTextDocument w s d) = None
             then [(uri d, ds)] else [])
      \<and> published (connection
            (state_of (validateTextDocument w (state_of (validateTextDocument w s d)) d))) =
          published (connection (state_of (validateTextDocument w s d))) @
            (if languageId d \<in> set allLanguageIds \<and> error_of (validateTextDocument w s d) = None
             then [(uri d, ds)] else [])"
proof (cases "languageId d \<in> set allLanguageIds")
  case False
  then show ?thesis
    by (simp add: validateTextDocument_unsupported state_of_def error_of_def)
next
  case True
  let ?s0 = "snd (getDocumentSettings w s (uri d))"
  from True show ?thesis
  proof (cases rule: validateTextDocument_cases [where w = w and s = s])
    case rejected
    have "validateTextDocument w ?s0 d = Inl (ResponseError, ?s0)"
      using rejected(1)
      by (simp add: validateTextDocument_again [OF True, where s = s] resume_Rejected
          getDocumentSettings_keeps)
    with rejected True show ?thesis
      by (simp add: state_of_def error_of_def getDocumentSettings_keeps)
  next
    case null
    let ?s1 = "?s0\<lparr>collectorMap := (collectorMap s)(uri d \<mapsto> [])\<rparr>"
    have "validateTextDocument w ?s1 d =
        Inl (TypeError, ?s1\<lparr>collectorMap := (collectorMap ?s1)(uri d \<mapsto> [])\<rparr>)"
      using null(1)
      by (simp add: validateTextDocument_again [OF True, where s = s] resume_null
          getDocumentSettings_keeps)
    with null True show ?thesis
      by (simp add: state_of_def error_of_def getDocumentSettings_keeps)
  next
    case (uri st)
    let ?s1 = "?s0\<lparr>collectorMap := (collectorMap s)(uri d \<mapsto> []),
            connection := connection ?s0 @ [ConsoleLog (Text (uri d))]\<rparr>"
    have "validateTextDocument w ?s1 d =
        Inl (URIError, ?s1\<lparr>collectorMap := (collectorMap ?s1)(uri d \<mapsto> []),
                            connection := connection ?s1 @ [ConsoleLog (Text (uri d))]\<rparr>)"
      using uri(1)
      by (simp add: validateTextDocument_again [OF True, where s = s]
          resume_UrlThrows [OF uri(2)] getDocumentSettings_keeps)
    with uri True show ?thesis
      by (simp add: state_of_def error_of_def getDocumentSettings_keeps published_append)
  next
    case (ran st pn)
    define s1 where "s1 = state_of (validateTextDocument w s d)"
    let ?ds = "toDiagnostics w (hasDiagnosticRelatedInformationCapability s) d
        (snd (run w (configOf st d) []))"
    have v1: "validateTextDocument w s d = Inr s1"
      by (simp add: s1_def ran(3) resume_Pathname [OF ran(2)] state_of_def)
    have k: "hasConfigurationCapability s1 = hasConfigurationCapability s"
      "globalSettings s1 = globalSettings s"
      "documentSettings s1 = documentSettings ?s0"
      "hasDiagnosticRelatedInformationCapability s1 = hasDiagnosticRelatedInformationCapability s"
      by (simp_all add: s1_def ran(3) resume_Pathname [OF ran(2)] state_of_def
          getDocumentSettings_keeps)
    have p1: "published (connection s1) = published (connection s) @ [(uri d, ?ds)]"
      by (simp add: s1_def ran(3) resume_Pathname [OF ran(2)] state_of_def
          getDocumentSettings_keeps published_append split: RunOutcome.splits)
    have v2: "validateTextDocument w s1 d =
        validateTextDocument_resume w s1 d (Resolved (Some st))"
      using validateTextDocument_again [OF True k(1,2,3)] ran(1) by simp
    have e2: "error_of (validateTextDocument w s1 d) = None"
      by (simp add: v2 resume_Pathname [OF ran(2)] error_of_def)
    have p2: "published (connection (state_of (validateTextDocument w s1 d))) =
        published (connection s1) @ [(uri d, ?ds)]"
      by (simp add: v2 resume_Pathname [OF ran(2)] state_of_def k(4) published_append
          split: RunOutcome.splits)
    have e1: "error_of (validateTextDocument w s d) = None"
      by (simp add: v1 error_of_def)
    from True e1 e2 p1 p2 show ?thesis
      unfolding s1_def [symmetric] by auto
  qed
qed

theorem validate_idempotent_witness:
  "error_of (validateTextDocument exampleWorld pushServer tsDoc) = None
   \<and> published (connection (state_of (validateTextDocument exampleWorld pushServer tsDoc))) =
       [(''a.ts'', [toDiagnostic exampleWorld True tsDoc exampleError])]
   \<and> published (connection (state_of (validateTextDocument exampleWorld
        (state_of (validateTextDocument exampleWorld pushServer tsDoc)) tsDoc))) =
       [(''a.ts'', [toDiagnostic exampleWorld True tsDoc exampleError]),
        (''a.ts'', [toDiagnostic exampleWorld True tsDoc exampleError])]"
proof -
  note h = tsDoc_supported
  have u: "uri tsDoc = ''a.ts''"
    by (simp add: tsDoc_def)
  have e: "error_of (validateTextDocument exampleWorld pushServer tsDoc) = None"
    and p: "published (connection (state_of (validateTextDocument exampleWorld pushServer tsDoc))) =
       [(''a.ts'', [toDiagnostic exampleWorld True tsDoc exampleError])]"
    by (simp_all add: validateTextDocument_push_example [OF h url_parse_example(1)] run_example
        error_of_def state_of_def toDiagnostics_def u)
  from validate_idempotent [where w = exampleWorld and s = pushServer and d = tsDoc]
  show ?thesis
    unfolding e p using h by (auto simp: u)
qed

text \<open>
  C10 (as the code has it). When the session negotiated the related-information
  capability, \<open>validate\<close> of a \<open>ScannerServer\<close> after \<open>bindConnection\<close> ends, for every
  document and settings record, as \<open>validateTextDocument\<close> does under those settings:
  both publish the same diagnostics array, or both throw at \<open>url.parse\<close> and publish
  nothing. The constructor's parameter \<open>allowRelatedInformation\<close> has no effect: every
  argument builds the instance that \<open>true\<close> builds.
\<close>

theorem ScannerServer_validate_refines:
  assumes "hasDiagnosticRelatedInformationCapability s"
    and "fst (getDocumentSettings w s (uri d)) = Resolved (Some st)"
  shows "\<exists>p. published (connection (state_of (validateTextDocument w s d))) =
            published (connection s) @ p
        \<and> published (the (ss_connection (state_of
             (validate w (bindConnection (new_ScannerServer cm allow) c) d st)))) =
            published c @ p
        \<and> error_of (validate w (bindConnection (new_ScannerServer cm allow) c) d st) =
            error_of (validateTextDocument w s d)
        \<and> new_ScannerServer cm allow = new_ScannerServer cm (Some True)"
proof -
  let ?ss = "bindConnection (new_ScannerServer cm allow) c"
  have b: "ss_connection ?ss = Some c"
    by (simp add: bindConnection_def)
  have a: "ss_allowRelatedInformation ?ss"
    by (simp add: bindConnection_def new_ScannerServer_def)
  have n: "new_ScannerServer cm allow = new_ScannerServer cm (Some True)"
    by (simp add: new_ScannerServer_def)
  have "\<exists>p. published (connection (state_of (validateTextDocument w s d))) =
            published (connection s) @ p
        \<and> published (the (ss_connection (state_of (validate w ?ss d st)))) = published c @ p
        \<and> error_of (validate w ?ss d st) = error_of (validateTextDocument w s d)"
  proof (cases "languageId d \<in> set allLanguageIds")
    case False
    then show ?thesis
      using b by (simp add: validateTextDocument_unsupported validate_def state_of_def
          error_of_def)
  next
    case True
    note v = validateTextDocument_supported [OF True, of w s]
    show ?thesis
    proof (cases "url_parse w (uri d)")
      case UrlThrows
      show ?thesis
        using assms(2)
        by (simp add: v resume_UrlThrows [OF UrlThrows] validate_UrlThrows [OF True b UrlThrows]
            state_of_def error_of_def getDocumentSettings_keeps published_append)
    next
      case (Pathname pn)
      show ?thesis
        using assms a
        by (simp add: v resume_Pathname [OF Pathname] validate_bound [OF True b Pathname]
            state_of_def error_of_def getDocumentSettings_keeps published_append
            split: RunOutcome.splits)
    qed
  qed
  with n show ?thesis
    by blast
qed

text \<open>
  The claim as stated fails on an instance as the constructor leaves it: with the
  capability negotiated and the same settings, \<open>validateTextDocument\<close> publishes one
  diagnostic for \<open>a.ts\<close>, while \<open>validate\<close> throws a TypeError on its \<open>null\<close> connection
  and publishes nothing.
\<close>

theorem ScannerServer_unbound_counterexample:
  "hasDiagnosticRelatedInformationCapability pushServer
   \<and> fst (getDocumentSettings exampleWorld pushServer (uri tsDoc)) =
       Resolved (Some defaultSettings)
   \<and> published (connection (state_of (validateTextDocument exampleWorld pushServer tsDoc))) =
       [(''a.ts'', [toDiagnostic exampleWorld True tsDoc exampleError])]
   \<and> error_of (validate exampleWorld unboundScannerServer tsDoc defaultSettings) =
       Some TypeError
   \<and> ss_connection (state_of (validate exampleWorld unboundScannerServer tsDoc defaultSettings)) =
       None"
proof -
  have u: "uri tsDoc = ''a.ts''"
    by (simp add: tsDoc_def)
  have bc: "ss_connection unboundScannerServer = None"
    by (simp add: unboundScannerServer_def new_ScannerServer_def)
  show ?thesis
    by (simp add: validateTextDocument_push_example [OF tsDoc_supported url_parse_example(1)]
        run_example state_of_def error_of_def toDiagnostics_def u pushServer_fields
        getDocumentSettings_fst validate_unbound [OF tsDoc_supported bc] bc)
qed

theorem ScannerServer_validate_refines_witness:
  "hasDiagnosticRelatedInformationCapability pushServer
   \<and> fst (getDocumentSettings exampleWorld pushServer (uri tsDoc)) =
       Resolved (Some defaultSettings)
   \<and> published (connection (state_of (validateTextDocument exampleWorld pushServer tsDoc))) =
       [(''a.ts'', [toDiagnostic exampleWorld True tsDoc exampleError])]
   \<and> error_of (validate exampleWorld boundScannerServer tsDoc defaultSettings) = None
   \<and> published (the (ss_connection
        (state_of (validate exampleWorld boundScannerServer tsDoc defaultSettings)))) =
       [(''a.ts'', [toDiagnostic exampleWorld True tsDoc exampleError])]"
proof -
  have u: "uri tsDoc = ''a.ts''"
    by (simp add: tsDoc_def)
  have h1: "hasDiagnosticRelatedInformationCapability pushServer"
    by (simp add: pushServer_def)
  have h2: "fst (getDocumentSettings exampleWorld pushServer (uri tsDoc)) =
      Resolved (Some defaultSettings)"
    by (simp add: getDocumentSettings_fst pushServer_fields)
  have e: "error_of (validateTextDocument exampleWorld pushServer tsDoc) = None"
    and p: "published (connection (state_of (validateTextDocument exampleWorld pushServer tsDoc))) =
       [(''a.ts'', [toDiagnostic exampleWorld True tsDoc exampleError])]"
    by (simp_all add: validateTextDocument_push_example [OF tsDoc_supported url_parse_example(1)]
        run_example error_of_def state_of_def toDiagnostics_def u)
  from ScannerServer_validate_refines [OF h1 h2, where cm = Map.empty and allow = "Some False" and c = "[]"]
  show ?thesis
    unfolding unboundScannerServer_def [symmetric] boundScannerServer_def [symmetric] e p
    using h1 h2 by (auto simp: pushServer_fields)
qed

end
